theory Spec2Isabelle
  imports Main
begin

section \<open>Constants and resource names (main.go, lines 17-31, 60-62, 75-77)\<close>

definition cleanup :: bool where
  "cleanup = True"

definition testSubscriptionName :: string where
  "testSubscriptionName = ''test-sub''"

definition testServiceAccountName :: string where
  "testServiceAccountName = ''test-sa''"

definition roleResourcePrefix :: string where
  "roleResourcePrefix = ''roles/''"

definition projectResourcePrefix :: string where
  "projectResourcePrefix = ''projects/''"

definition pubsubRolePrefix :: string where
  "pubsubRolePrefix = ''pubsub.''"

definition topicPrefix :: string where
  "topicPrefix = ''topics/''"

definition subscriptionPrefix :: string where
  "subscriptionPrefix = ''subscriptions/''"

definition saBindingPrefix :: string where
  "saBindingPrefix = ''serviceAccount:''"

definition topicResourceName :: "string \<Rightarrow> string \<Rightarrow> string" where
  "topicResourceName projectID topicName =
     projectResourcePrefix @ projectID @ ''/'' @ topicPrefix @ topicName"

definition subscriptionResourceName :: "string \<Rightarrow> string \<Rightarrow> string" where
  "subscriptionResourceName projectID subscriptionName =
     projectResourcePrefix @ projectID @ ''/'' @ subscriptionPrefix @ subscriptionName"

section \<open>Policies and the binding merge (main.go, lines 112-162)\<close>

text \<open>
  The two client packages declare \<open>Binding\<close> and \<open>Policy\<close> with the same fields
  (\<open>Members\<close>, \<open>Role\<close>; \<open>Bindings\<close>), and the source has one copy of each function
  per package, equal but for the package name. One pair of records serves both; the
  records are extensible, so the fields the program never touches (\<open>Etag\<close>,
  \<open>Version\<close>) ride along in the \<open>more\<close> part.

  \<open>Policy.Bindings\<close> is a slice of pointers, one freshly decoded record per slot. A
  pointer into the slice is the index of its slot; \<open>nil\<close> is \<open>None\<close>. Writing
  through the pointer updates that slot in place.
\<close>

record binding =
  Members :: "string list"
  Role :: string

record policy =
  Bindings :: "binding list"

text \<open>
  The resources the program reads a field of. \<open>Topic\<close>, \<open>ServiceAccount\<close>,
  \<open>Subscription\<close> and \<open>ServiceAccountKey\<close> all have a \<open>Name\<close>; \<open>os.File\<close> has
  the method \<open>Name()\<close>. Every one of them reaches the program as a pointer, which
  is an \<open>option\<close> here.
\<close>

record resource =
  Name :: string

record serviceAccount = resource +
  Email :: string

record subscription = resource +
  Topic :: string

record serviceAccountKey = resource +
  PrivateKeyData :: string

type_synonym topic = resource

type_synonym osFile = resource

record testIamPermissionsResponse =
  Permissions :: "string list"

datatype panic = NilPointerDereference

fun collapseBindings :: "binding list \<Rightarrow> string \<Rightarrow> nat option" where
  "collapseBindings [] role = None"
| "collapseBindings (b # bs) role =
     (if Role b = roleResourcePrefix @ role then Some 0
      else map_option Suc (collapseBindings bs role))"

fun collapsePubsubBindings :: "binding list \<Rightarrow> string \<Rightarrow> nat option" where
  "collapsePubsubBindings [] role = None"
| "collapsePubsubBindings (b # bs) role =
     (if Role b = roleResourcePrefix @ role then Some 0
      else map_option Suc (collapsePubsubBindings bs role))"

text \<open>
  \<open>policy\<close> and \<open>sa\<close> are pointers: \<open>policy.Bindings\<close> and \<open>sa.Email\<close> panic
  on \<open>nil\<close>. The slice is read first, the member string is built next, in either
  branch, before anything is written.
\<close>

definition addMemberToPubSubPolicy ::
  "'a policy_scheme option \<Rightarrow> 'b serviceAccount_scheme option \<Rightarrow> string
     \<Rightarrow> panic + 'a policy_scheme" where
  "addMemberToPubSubPolicy pol sa role =
     (case pol of
        None \<Rightarrow> Inl NilPointerDereference
      | Some p \<Rightarrow>
          (case collapsePubsubBindings (Bindings p) role of
             Some i \<Rightarrow>
               (case sa of
                  None \<Rightarrow> Inl NilPointerDereference
                | Some s \<Rightarrow>
                    Inr (p\<lparr>Bindings := (Bindings p)
                          [i := (Bindings p ! i)
                             \<lparr>Members := Members (Bindings p ! i) @ [saBindingPrefix @ Email s]\<rparr>]\<rparr>))
           | None \<Rightarrow>
               (case sa of
                  None \<Rightarrow> Inl NilPointerDereference
                | Some s \<Rightarrow>
                    Inr (p\<lparr>Bindings := Bindings p @
                          [\<lparr>Members = [saBindingPrefix @ Email s],
                            Role = roleResourcePrefix @ role\<rparr>]\<rparr>))))"

definition addMemberToPolicy ::
  "'a policy_scheme option \<Rightarrow> 'b serviceAccount_scheme option \<Rightarrow> string
     \<Rightarrow> panic + 'a policy_scheme" where
  "addMemberToPolicy pol sa role =
     (case pol of
        None \<Rightarrow> Inl NilPointerDereference
      | Some p \<Rightarrow>
          (case collapseBindings (Bindings p) role of
             Some i \<Rightarrow>
               (case sa of
                  None \<Rightarrow> Inl NilPointerDereference
                | Some s \<Rightarrow>
                    Inr (p\<lparr>Bindings := (Bindings p)
                          [i := (Bindings p ! i)
                             \<lparr>Members := Members (Bindings p ! i) @ [saBindingPrefix @ Email s]\<rparr>]\<rparr>))
           | None \<Rightarrow>
               (case sa of
                  None \<Rightarrow> Inl NilPointerDereference
                | Some s \<Rightarrow>
                    Inr (p\<lparr>Bindings := Bindings p @
                          [\<lparr>Members = [saBindingPrefix @ Email s],
                            Role = roleResourcePrefix @ role\<rparr>]\<rparr>))))"

section \<open>The process: state, outcomes and the outside world\<close>

text \<open>
  A Go \<open>error\<close> is its message. A call that returns \<open>(*T, error)\<close> returns a pair of
  a pointer and an error, each of which may be \<open>nil\<close>; the program tests the two
  separately (\<open>if err != nil\<close>, \<open>if testSub != nil\<close>), so the model keeps the pair
  and does not read one from the other.
\<close>

datatype error = Err string

record JWT =
  Type :: string
  ProjectID :: string
  PrivateKeyID :: string
  PrivateKey :: string
  ClientEmail :: string
  ClientID :: string
  AuthURI :: string
  TokenURI :: string
  AuthProviderX509CertURL :: string
  ClientX509CertURL :: string

text \<open>\<open>new(JWT)\<close>: every field is the empty string.\<close>

definition zeroJWT :: JWT where
  "zeroJWT = \<lparr>Type = '''', ProjectID = '''', PrivateKeyID = '''', PrivateKey = '''',
     ClientEmail = '''', ClientID = '''', AuthURI = '''', TokenURI = '''',
     AuthProviderX509CertURL = '''', ClientX509CertURL = ''''\<rparr>"

text \<open>
  A call into a client library returns, or panics inside the library (as a call through
  a service built on a \<open>nil\<close> client may): the world says which.
\<close>

datatype 'a outcome = Crashed | Returned 'a

text \<open>
  Everything outside \<open>main.go\<close> is a parameter: the operating system, the decoders and
  the three cloud clients. \<open>'w\<close> is the state of the world, \<open>'c\<close> an \<open>*http.Client\<close>,
  \<open>'s\<close> a service built on a client (\<open>cloudres.New\<close>, \<open>iam.New\<close>, \<open>pubsub.New\<close>). The
  sub-services \<open>NewProjectsService(s)\<close>, \<open>NewProjectsServiceAccountsService(s)\<close>,
  \<open>NewProjectsServiceAccountsKeysService(s)\<close> and \<open>NewProjectsTopicsService(s)\<close> only
  wrap the pointer \<open>s\<close>, \<open>nil\<close> or not, so a sub-service is the \<open>'s option\<close> it wraps.
  \<open>Unmarshal raw\<close> is the value of the pointer \<open>jwt\<close> after
  \<open>json.Unmarshal(raw, &jwt)\<close> on a fresh \<open>JWT\<close>, and the error.
\<close>

record ('w, 'c, 's) api =
  Getenv :: "string \<Rightarrow> 'w \<Rightarrow> string"
  Setenv :: "string \<Rightarrow> string \<Rightarrow> 'w \<Rightarrow> error option \<times> 'w"
  ReadFile :: "string \<Rightarrow> 'w \<Rightarrow> string \<times> error option"
  WriteFile :: "string \<Rightarrow> string \<Rightarrow> 'w \<Rightarrow> error option \<times> 'w"
  TempDir :: "'w \<Rightarrow> string"
  TempFile :: "string \<Rightarrow> string \<Rightarrow> 'w \<Rightarrow> (osFile option \<times> error option) \<times> 'w"
  Remove :: "string \<Rightarrow> 'w \<Rightarrow> error option \<times> 'w"
  Unmarshal :: "string \<Rightarrow> JWT option \<times> error option"
  DecodeString :: "string \<Rightarrow> string \<times> error option"
  DefaultClient :: "string list \<Rightarrow> 'w \<Rightarrow> 'c option \<times> error option"
  CloudresNew :: "'c option \<Rightarrow> 's option \<times> error option"
  IamNew :: "'c option \<Rightarrow> 's option \<times> error option"
  PubsubNew :: "'c option \<Rightarrow> 's option \<times> error option"
  ServiceAccountsCreate :: "'s option \<Rightarrow> string \<Rightarrow> string \<Rightarrow> string \<Rightarrow> 'w
     \<Rightarrow> (serviceAccount option \<times> error option) outcome \<times> 'w"
  ServiceAccountsDelete :: "'s option \<Rightarrow> string \<Rightarrow> 'w \<Rightarrow> error option outcome \<times> 'w"
  KeysCreate :: "'s option \<Rightarrow> string \<Rightarrow> 'w
     \<Rightarrow> (serviceAccountKey option \<times> error option) outcome \<times> 'w"
  TopicsCreate :: "'s option \<Rightarrow> string \<Rightarrow> topic \<Rightarrow> 'w
     \<Rightarrow> (topic option \<times> error option) outcome \<times> 'w"
  TopicsDelete :: "'s option \<Rightarrow> string \<Rightarrow> 'w \<Rightarrow> error option outcome \<times> 'w"
  TopicsGetIamPolicy :: "'s option \<Rightarrow> string \<Rightarrow> 'w
     \<Rightarrow> (policy option \<times> error option) outcome \<times> 'w"
  TopicsSetIamPolicy :: "'s option \<Rightarrow> string \<Rightarrow> policy \<Rightarrow> 'w
     \<Rightarrow> (policy option \<times> error option) outcome \<times> 'w"
  TopicsTestIamPermissions :: "'s option \<Rightarrow> string \<Rightarrow> string list \<Rightarrow> 'w
     \<Rightarrow> (testIamPermissionsResponse option \<times> error option) outcome \<times> 'w"
  SubscriptionsCreate :: "'s \<Rightarrow> string \<Rightarrow> subscription \<Rightarrow> 'w
     \<Rightarrow> (subscription option \<times> error option) outcome \<times> 'w"
  SubscriptionsDelete :: "'s \<Rightarrow> string \<Rightarrow> 'w \<Rightarrow> error option outcome \<times> 'w"
  ProjectsGetIamPolicy :: "'s option \<Rightarrow> string \<Rightarrow> 'w
     \<Rightarrow> (policy option \<times> error option) outcome \<times> 'w"
  ProjectsSetIamPolicy :: "'s option \<Rightarrow> string \<Rightarrow> policy \<Rightarrow> 'w
     \<Rightarrow> (policy option \<times> error option) outcome \<times> 'w"
  ProjectsTestIamPermissions :: "'s option \<Rightarrow> string \<Rightarrow> string list \<Rightarrow> 'w
     \<Rightarrow> (testIamPermissionsResponse option \<times> error option) outcome \<times> 'w"

text \<open>The scope constants of the client packages, passed on to \<open>DefaultClient\<close>.\<close>

definition PubsubScope :: string where
  "PubsubScope = ''https://www.googleapis.com/auth/pubsub''"

definition CloudPlatformScope :: string where
  "CloudPlatformScope = ''https://www.googleapis.com/auth/cloud-platform''"

text \<open>
  What the process leaves behind: the lines it logged, the calls it made that can return
  an error (method, service, string arguments, and the error that came back: none when
  the call returned \<open>nil\<close> for it or did not return), the stack of deferred calls of
  \<open>main\<close> (last deferred first), and the deferred calls that were started at exit, in
  the order they were started.
\<close>

datatype logarg = ArgErr error | ArgStr string | ArgSub subscription

datatype logline = Printf string "logarg list" | Println string

datatype 's event = Event string "'s option" "string list" "error option"

datatype 's deferred =
    DeferDeleteServiceAccount "'s option" "serviceAccount option"
  | DeferDeleteTopic "'s option" "topic option"
  | DeferRemove string
  | DeferDeleteSubscription "'s option" string string string

record ('w, 's) proc =
  world :: 'w
  logged :: "logline list"
  events :: "'s event list"
  deferred :: "'s deferred list"
  unwound :: "'s deferred list"

text \<open>
  A statement either yields a value, panics (a \<open>nil\<close> dereference, or a crash inside a
  library), or ends the process with a status (\<open>log.Fatalf\<close> is \<open>os.Exit(1)\<close> after
  the line is logged).
\<close>

datatype 'a result = Val 'a | Panic | Exit nat

type_synonym ('a, 'w, 's) prog = "('w, 's) proc \<Rightarrow> 'a result \<times> ('w, 's) proc"

definition ret :: "'a \<Rightarrow> ('a, 'w, 's) prog" where
  "ret x = (\<lambda>s. (Val x, s))"

definition andThen :: "('a, 'w, 's) prog \<Rightarrow> ('a \<Rightarrow> ('b, 'w, 's) prog) \<Rightarrow> ('b, 'w, 's) prog" where
  "andThen m f = (\<lambda>s. case m s of
       (Val x, s') \<Rightarrow> f x s'
     | (Panic, s') \<Rightarrow> (Panic, s')
     | (Exit n, s') \<Rightarrow> (Exit n, s'))"

definition deref :: "'a option \<Rightarrow> ('a, 'w, 's) prog" where
  "deref p = (case p of None \<Rightarrow> (\<lambda>s. (Panic, s)) | Some x \<Rightarrow> ret x)"

definition lift :: "panic + 'a \<Rightarrow> ('a, 'w, 's) prog" where
  "lift r = (case r of Inl e \<Rightarrow> (\<lambda>s. (Panic, s)) | Inr x \<Rightarrow> ret x)"

definition printf :: "string \<Rightarrow> logarg list \<Rightarrow> (unit, 'w, 's) prog" where
  "printf fmt args = (\<lambda>s. (Val (), s\<lparr>logged := logged s @ [Printf fmt args]\<rparr>))"

definition println :: "string \<Rightarrow> (unit, 'w, 's) prog" where
  "println msg = (\<lambda>s. (Val (), s\<lparr>logged := logged s @ [Println msg]\<rparr>))"

definition fatalf :: "string \<Rightarrow> logarg list \<Rightarrow> (unit, 'w, 's) prog" where
  "fatalf fmt args = (\<lambda>s. (Exit 1, s\<lparr>logged := logged s @ [Printf fmt args]\<rparr>))"

text \<open>\<open>if err != nil { ... }\<close>\<close>

definition ifErr :: "error option \<Rightarrow> (error \<Rightarrow> (unit, 'w, 's) prog) \<Rightarrow> (unit, 'w, 's) prog" where
  "ifErr err f = (case err of None \<Rightarrow> ret () | Some e \<Rightarrow> f e)"

text \<open>\<open>for _, x := range xs { ... }\<close>\<close>

fun forEach :: "'a list \<Rightarrow> ('a \<Rightarrow> (unit, 'w, 's) prog) \<Rightarrow> (unit, 'w, 's) prog" where
  "forEach [] f = ret ()"
| "forEach (x # xs) f = andThen (f x) (\<lambda>_. forEach xs f)"

definition inspect :: "('w \<Rightarrow> 'a) \<Rightarrow> ('a, 'w, 's) prog" where
  "inspect f = (\<lambda>s. (Val (f (world s)), s))"

text \<open>
  The calls that are recorded. \<open>ev\<close> is the event still without the error and
  \<open>err\<close> reads the error off what the call returns: \<open>snd\<close> for a call that returns
  a value and an error, \<open>id\<close> for one that returns only an error. \<open>call\<close> is a library
  function that depends on nothing but its arguments, \<open>consult\<close> one that reads the
  world, \<open>system\<close> one that changes it, \<open>request\<close> one that goes to the provider
  and may crash inside the client library.
\<close>

definition call ::
  "(error option \<Rightarrow> 's event) \<Rightarrow> ('a \<Rightarrow> error option) \<Rightarrow> 'a \<Rightarrow> ('a, 'w, 's) prog" where
  "call ev err x = (\<lambda>s. (Val x, s\<lparr>events := events s @ [ev (err x)]\<rparr>))"

definition consult ::
  "(error option \<Rightarrow> 's event) \<Rightarrow> ('a \<Rightarrow> error option) \<Rightarrow> ('w \<Rightarrow> 'a) \<Rightarrow> ('a, 'w, 's) prog" where
  "consult ev err f = (\<lambda>s. (Val (f (world s)), s\<lparr>events := events s @ [ev (err (f (world s)))]\<rparr>))"

definition system ::
  "(error option \<Rightarrow> 's event) \<Rightarrow> ('a \<Rightarrow> error option) \<Rightarrow> ('w \<Rightarrow> 'a \<times> 'w)
     \<Rightarrow> ('a, 'w, 's) prog" where
  "system ev err f = (\<lambda>s. case f (world s) of
       (x, w') \<Rightarrow> (Val x, s\<lparr>world := w', events := events s @ [ev (err x)]\<rparr>))"

definition request ::
  "(error option \<Rightarrow> 's event) \<Rightarrow> ('a \<Rightarrow> error option) \<Rightarrow> ('w \<Rightarrow> 'a outcome \<times> 'w)
     \<Rightarrow> ('a, 'w, 's) prog" where
  "request ev err f = (\<lambda>s. case f (world s) of
       (Crashed, w') \<Rightarrow> (Panic, s\<lparr>world := w', events := events s @ [ev None]\<rparr>)
     | (Returned x, w') \<Rightarrow> (Val x, s\<lparr>world := w', events := events s @ [ev (err x)]\<rparr>))"

text \<open>\<open>defer f(args)\<close>: the arguments are already evaluated.\<close>

definition deferCall :: "'s deferred \<Rightarrow> (unit, 'w, 's) prog" where
  "deferCall d = (\<lambda>s. (Val (), s\<lparr>deferred := d # deferred s\<rparr>))"

section \<open>The functions of main.go\<close>

text \<open>
  Lines 46-58. \<open>jwt\<close> is a pointer; \<open>json.Unmarshal\<close> gets its address and may leave
  \<open>nil\<close> in it, and every \<open>return *jwt, ...\<close> dereferences it.
\<close>

definition jwtFromFile :: "('w, 'c, 's) api \<Rightarrow> string \<Rightarrow> (JWT \<times> error option, 'w, 's) prog" where
  "jwtFromFile a filePath =
     andThen (inspect (ReadFile a filePath)) (\<lambda>(raw, err).
       case err of
         Some e \<Rightarrow> ret (zeroJWT, Some e)
       | None \<Rightarrow>
           (case Unmarshal a raw of (jwt, err) \<Rightarrow>
              (case err of
                 Some e \<Rightarrow> andThen (deref jwt) (\<lambda>j. ret (j, Some e))
               | None \<Rightarrow> andThen (deref jwt) (\<lambda>j. ret (j, None)))))"

text \<open>
  Lines 60-110: the calls that create and delete the topic, the subscriptions, the
  service account and its key. \<open>topic.Name\<close>, \<open>sa.Name\<close> and
  \<open>pubsubService.Projects\<close> read a field through a pointer and panic on \<open>nil\<close>;
  the read comes before the call is made. Each event names the method called, the
  service it is called through and the string arguments; the error is filled in when
  the call returns.
\<close>

definition createTopic ::
  "('w, 'c, 's) api \<Rightarrow> 's option \<Rightarrow> string \<Rightarrow> string \<Rightarrow> (topic option \<times> error option, 'w, 's) prog" where
  "createTopic a topicsService projectID name =
     request (Event ''pubsub.projects.topics.create'' topicsService
                [topicResourceName projectID name, name]) snd
       (TopicsCreate a topicsService (topicResourceName projectID name) \<lparr>Name = name\<rparr>)"

definition deleteTopic ::
  "('w, 'c, 's) api \<Rightarrow> 's option \<Rightarrow> topic option \<Rightarrow> (error option, 'w, 's) prog" where
  "deleteTopic a topicsService topic =
     andThen (deref topic) (\<lambda>t.
       request (Event ''pubsub.projects.topics.delete'' topicsService [Name t]) id
         (TopicsDelete a topicsService (Name t)))"

definition createSubscription ::
  "('w, 'c, 's) api \<Rightarrow> 's option \<Rightarrow> string \<Rightarrow> string \<Rightarrow> string
     \<Rightarrow> (subscription option \<times> error option, 'w, 's) prog" where
  "createSubscription a pubsubService projectID subscriptionName topicName =
     andThen (deref pubsubService) (\<lambda>ps.
       request (Event ''pubsub.projects.subscriptions.create'' pubsubService
                  [subscriptionResourceName projectID subscriptionName, topicName]) snd
         (SubscriptionsCreate a ps (subscriptionResourceName projectID subscriptionName)
            \<lparr>Name = '''', Topic = topicName\<rparr>))"

definition deleteSubscription ::
  "('w, 'c, 's) api \<Rightarrow> 's option \<Rightarrow> string \<Rightarrow> string \<Rightarrow> string \<Rightarrow> (error option, 'w, 's) prog" where
  "deleteSubscription a pubsubService projectID subscriptionName topicName =
     andThen (deref pubsubService) (\<lambda>ps.
       request (Event ''pubsub.projects.subscriptions.delete'' pubsubService
                  [subscriptionResourceName projectID subscriptionName]) id
         (SubscriptionsDelete a ps (subscriptionResourceName projectID subscriptionName)))"

definition createServiceAccount ::
  "('w, 'c, 's) api \<Rightarrow> 's option \<Rightarrow> string \<Rightarrow> string
     \<Rightarrow> (serviceAccount option \<times> error option, 'w, 's) prog" where
  "createServiceAccount a iamServiceAccountsService projectID name =
     (let resourceName = projectResourcePrefix @ projectID in
      request (Event ''iam.projects.serviceAccounts.create'' iamServiceAccountsService
                 [resourceName, name]) snd
        (ServiceAccountsCreate a iamServiceAccountsService resourceName name name))"

definition deleteServiceAccount ::
  "('w, 'c, 's) api \<Rightarrow> 's option \<Rightarrow> serviceAccount option \<Rightarrow> (error option, 'w, 's) prog" where
  "deleteServiceAccount a iamServiceAccountsService sa =
     andThen (deref sa) (\<lambda>x.
       request (Event ''iam.projects.serviceAccounts.delete'' iamServiceAccountsService [Name x]) id
         (ServiceAccountsDelete a iamServiceAccountsService (Name x)))"

definition createServiceAccountKey ::
  "('w, 'c, 's) api \<Rightarrow> 's option \<Rightarrow> serviceAccount option
     \<Rightarrow> (serviceAccountKey option \<times> error option, 'w, 's) prog" where
  "createServiceAccountKey a iamKeysService sa =
     andThen (deref sa) (\<lambda>x.
       request (Event ''iam.projects.serviceAccounts.keys.create'' iamKeysService [Name x]) snd
         (KeysCreate a iamKeysService (Name x)))"

text \<open>
  Lines 164-205: a grant reads the policy, returns at once on an error, adds the member
  and writes the policy back; granting a list of roles stops at the first error.
\<close>

definition grantProjectPermission ::
  "('w, 'c, 's) api \<Rightarrow> 's option \<Rightarrow> string \<Rightarrow> serviceAccount option \<Rightarrow> string
     \<Rightarrow> (policy option \<times> error option, 'w, 's) prog" where
  "grantProjectPermission a projectsService projectID sa role =
     andThen (request (Event ''cloudresourcemanager.projects.getIamPolicy'' projectsService
                         [projectID]) snd
                (ProjectsGetIamPolicy a projectsService projectID)) (\<lambda>(currPolicy, err).
       case err of
         Some e \<Rightarrow> ret (None, Some e)
       | None \<Rightarrow>
           andThen (lift (addMemberToPolicy currPolicy sa role)) (\<lambda>p.
             request (Event ''cloudresourcemanager.projects.setIamPolicy'' projectsService
                        [projectID]) snd
               (ProjectsSetIamPolicy a projectsService projectID p)))"

fun grantProjectPermissions ::
  "('w, 'c, 's) api \<Rightarrow> 's option \<Rightarrow> string \<Rightarrow> serviceAccount option \<Rightarrow> string list
     \<Rightarrow> (error option, 'w, 's) prog" where
  "grantProjectPermissions a projectsService projectID sa [] = ret None"
| "grantProjectPermissions a projectsService projectID sa (role # roles) =
     andThen (grantProjectPermission a projectsService projectID sa role) (\<lambda>(_, err).
       case err of
         Some e \<Rightarrow> ret (Some e)
       | None \<Rightarrow> grantProjectPermissions a projectsService projectID sa roles)"

definition grantPermissionOnTopic ::
  "('w, 'c, 's) api \<Rightarrow> 's option \<Rightarrow> topic option \<Rightarrow> serviceAccount option \<Rightarrow> string
     \<Rightarrow> (policy option \<times> error option, 'w, 's) prog" where
  "grantPermissionOnTopic a topicsService topic sa role =
     andThen (deref topic) (\<lambda>t.
     andThen (request (Event ''pubsub.projects.topics.getIamPolicy'' topicsService [Name t]) snd
                (TopicsGetIamPolicy a topicsService (Name t))) (\<lambda>(currPolicy, err).
       case err of
         Some e \<Rightarrow> ret (None, Some e)
       | None \<Rightarrow>
           andThen (lift (addMemberToPubSubPolicy currPolicy sa (pubsubRolePrefix @ role))) (\<lambda>p.
             request (Event ''pubsub.projects.topics.setIamPolicy'' topicsService [Name t]) snd
               (TopicsSetIamPolicy a topicsService (Name t) p))))"

fun grantPermissionsOnTopic ::
  "('w, 'c, 's) api \<Rightarrow> 's option \<Rightarrow> topic option \<Rightarrow> serviceAccount option \<Rightarrow> string list
     \<Rightarrow> (error option, 'w, 's) prog" where
  "grantPermissionsOnTopic a topicsService topic sa [] = ret None"
| "grantPermissionsOnTopic a topicsService topic sa (role # roles) =
     andThen (grantPermissionOnTopic a topicsService topic sa role) (\<lambda>(_, err).
       case err of
         Some e \<Rightarrow> ret (Some e)
       | None \<Rightarrow> grantPermissionsOnTopic a topicsService topic sa roles)"

text \<open>Lines 207-238: the permission checks.\<close>

definition projectPermsToCheck :: "string list" where
  "projectPermsToCheck =
     [''pubsub.subscriptions.create'', ''pubsub.subscriptions.list'', ''pubsub.topics.list'']"

definition topicPermsToCheck :: "string list" where
  "topicPermsToCheck =
     [''pubsub.topics.get'', ''pubsub.topics.subscribe'', ''pubsub.topics.publish'',
      ''pubsub.topics.update'', ''pubsub.topics.attachSubscription'', ''pubsub.topics.delete'',
      ''pubsub.topics.getIamPolicy'', ''pubsub.topics.setIamPolicy'']"

definition getPermissions ::
  "('w, 'c, 's) api \<Rightarrow> 's option \<Rightarrow> string
     \<Rightarrow> (testIamPermissionsResponse option \<times> error option, 'w, 's) prog" where
  "getPermissions a projectsService projectID =
     request (Event ''cloudresourcemanager.projects.testIamPermissions'' projectsService
                [projectResourcePrefix @ projectID]) snd
       (ProjectsTestIamPermissions a projectsService (projectResourcePrefix @ projectID)
          projectPermsToCheck)"

definition getPermissionsOnTopic ::
  "('w, 'c, 's) api \<Rightarrow> 's option \<Rightarrow> string \<Rightarrow> topic option
     \<Rightarrow> (testIamPermissionsResponse option \<times> error option, 'w, 's) prog" where
  "getPermissionsOnTopic a topicsService projectID topic =
     andThen (deref topic) (\<lambda>t.
       request (Event ''pubsub.projects.topics.testIamPermissions'' topicsService [Name t]) snd
         (TopicsTestIamPermissions a topicsService (Name t) topicPermsToCheck))"

section \<open>main (main.go, lines 240-423)\<close>

text \<open>
  The body of \<open>main\<close> in six consecutive blocks, the second to the fourth ending
  where a deferred call is registered; the variables a later block reads are passed on.
  The format strings are the source's without their final newline. \<open>err\<close> is assigned
  by every call and read only by the \<open>if\<close> that follows it.

  Lines 241-254: the credential path and the project id of the credential file; the two
  \<open>log.Fatalf\<close>.
\<close>

definition mainA :: "('w, 'c, 's) api \<Rightarrow> (string, 'w, 's) prog" where
  "mainA a =
     andThen (inspect (Getenv a ''GOOGLE_APPLICATION_CREDENTIALS'')) (\<lambda>jwtPath.
     andThen (if jwtPath = ''''
              then fatalf (''GOOGLE_APPLICATION_CREDENTIALS environment variable must be set ''
                           @ ''to a full-access JWT credential file.'') []
              else ret ()) (\<lambda>_.
     andThen (jwtFromFile a jwtPath) (\<lambda>(jwt, err).
     andThen (ifErr err (\<lambda>e. fatalf ''Failed to load JWT from file: %s'' [ArgErr e])) (\<lambda>_.
     let projectID = ProjectID jwt in
     ret projectID))))"

text \<open>
  Lines 256-284: the full-access client, the resource-manager and IAM services, the
  service account and its deferred deletion.
\<close>

definition mainB ::
  "('w, 'c, 's) api \<Rightarrow> string
     \<Rightarrow> ('c option \<times> 's option \<times> 's option \<times> 's option \<times> serviceAccount option,
         'w, 's) prog" where
  "mainB a projectID =
     andThen (consult (Event ''google.DefaultClient'' None [PubsubScope, CloudPlatformScope]) snd
                (DefaultClient a [PubsubScope, CloudPlatformScope])) (\<lambda>(gcpClient, err).
     andThen (ifErr err (\<lambda>e. printf ''Failed to get new Google Default Client: %s'' [ArgErr e])) (\<lambda>_.
     andThen (call (Event ''cloudresourcemanager.New'' None []) snd (CloudresNew a gcpClient))
       (\<lambda>(cloudResService, err).
     andThen (ifErr err (\<lambda>e. printf ''Failed to create CloudRes Service: %s'' [ArgErr e])) (\<lambda>_.
     let projectsService = cloudResService in
     andThen (call (Event ''iam.New'' None []) snd (IamNew a gcpClient)) (\<lambda>(iamService, err).
     andThen (ifErr err (\<lambda>e. printf ''Failed to create IAM Service: %s'' [ArgErr e])) (\<lambda>_.
     let iamServiceAccountsService = iamService; iamKeysService = iamService in
     andThen (createServiceAccount a iamServiceAccountsService projectID testServiceAccountName)
       (\<lambda>(serviceAccount, err).
     andThen (ifErr err (\<lambda>e. printf ''Failed to create service account: %s'' [ArgErr e])) (\<lambda>_.
     andThen (if cleanup
              then deferCall (DeferDeleteServiceAccount iamServiceAccountsService serviceAccount)
              else ret ()) (\<lambda>_.
     ret (gcpClient, projectsService, iamServiceAccountsService, iamKeysService,
          serviceAccount))))))))))"

text \<open>Lines 286-301: the Pub/Sub service, the topic and its deferred deletion.\<close>

definition mainC ::
  "('w, 'c, 's) api \<Rightarrow> string \<Rightarrow> 'c option
     \<Rightarrow> ('s option \<times> 's option \<times> topic option, 'w, 's) prog" where
  "mainC a projectID gcpClient =
     andThen (call (Event ''pubsub.New'' None []) snd (PubsubNew a gcpClient))
       (\<lambda>(pubsubService, err).
     andThen (ifErr err (\<lambda>e. printf ''Failed to create PubSub Service: %s'' [ArgErr e])) (\<lambda>_.
     let topicsService = pubsubService in
     andThen (createTopic a topicsService projectID ''test-topic'') (\<lambda>(topic, err).
     andThen (ifErr err (\<lambda>e. printf ''Failed to create topic: %s'' [ArgErr e])) (\<lambda>_.
     andThen (if cleanup then deferCall (DeferDeleteTopic topicsService topic) else ret ()) (\<lambda>_.
     ret (pubsubService, topicsService, topic))))))"

text \<open>
  Lines 303-325: the grant on the topic, the key, its decoding, the temporary file and
  its deferred removal. \<open>key.PrivateKeyData\<close> and \<open>file.Name()\<close> dereference.
\<close>

definition mainD ::
  "('w, 'c, 's) api \<Rightarrow> 's option \<Rightarrow> 's option \<Rightarrow> topic option \<Rightarrow> serviceAccount option
     \<Rightarrow> (string \<times> osFile option, 'w, 's) prog" where
  "mainD a iamKeysService topicsService topic serviceAccount =
     andThen (grantPermissionsOnTopic a topicsService topic serviceAccount [''subscriber''])
       (\<lambda>err.
     andThen (ifErr err (\<lambda>e. printf ''Failed to grant permissions on topic: %s'' [ArgErr e])) (\<lambda>_.
     andThen (createServiceAccountKey a iamKeysService serviceAccount) (\<lambda>(key, err).
     andThen (ifErr err (\<lambda>e. printf ''Failed to create service account key: %s'' [ArgErr e])) (\<lambda>_.
     andThen (deref key) (\<lambda>k.
     andThen (call (Event ''base64.StdEncoding.DecodeString'' None [PrivateKeyData k]) snd
                (DecodeString a (PrivateKeyData k))) (\<lambda>(decodedKey, err).
     andThen (ifErr err (\<lambda>e. printf ''Failed to decode service account key: %s'' [ArgErr e])) (\<lambda>_.
     andThen (inspect (TempDir a)) (\<lambda>dir.
     andThen (system (Event ''ioutil.TempFile'' None [dir, '''']) snd (TempFile a dir ''''))
       (\<lambda>(file, err).
     andThen (ifErr err (\<lambda>e. printf ''Failed to create temp file: %s'' [ArgErr e])) (\<lambda>_.
     andThen (deref file) (\<lambda>f.
     andThen (deferCall (DeferRemove (Name f))) (\<lambda>_.
     ret (decodedKey, file)))))))))))))"

text \<open>
  Lines 326-377: the key file is written and made the credential file, a client and a
  Pub/Sub service are built from it, the permissions on the topic are queried, and the
  first subscription is attempted. Line 348 builds \<open>newTopicsService\<close> from
  \<open>pubsubService\<close>.
\<close>

definition mainE ::
  "('w, 'c, 's) api \<Rightarrow> string \<Rightarrow> 's option \<Rightarrow> topic option \<Rightarrow> string \<Rightarrow> osFile option
     \<Rightarrow> ('s option, 'w, 's) prog" where
  "mainE a projectID pubsubService topic decodedKey file =
     andThen (deref file) (\<lambda>f.
     andThen (system (Event ''ioutil.WriteFile'' None [Name f, decodedKey]) id
                (WriteFile a (Name f) decodedKey)) (\<lambda>err.
     andThen (ifErr err (\<lambda>e. printf ''Failed to write key to file: %s'' [ArgErr e])) (\<lambda>_.
     andThen (deref file) (\<lambda>f.
     andThen (system (Event ''os.Setenv'' None [''GOOGLE_APPLICATION_CREDENTIALS'', Name f]) id
                (Setenv a ''GOOGLE_APPLICATION_CREDENTIALS'' (Name f))) (\<lambda>err.
     andThen (ifErr err (\<lambda>e. printf ''Failed to set env var: %s'' [ArgErr e])) (\<lambda>_.
     andThen (consult (Event ''google.DefaultClient'' None [PubsubScope]) snd
                (DefaultClient a [PubsubScope])) (\<lambda>(newGCPClient, err).
     andThen (ifErr err (\<lambda>e. printf ''Failed to get new Google Default Client: %s'' [ArgErr e])) (\<lambda>_.
     andThen (call (Event ''pubsub.New'' None []) snd (PubsubNew a newGCPClient))
       (\<lambda>(newPubsubService, err).
     andThen (ifErr err (\<lambda>e. printf ''Failed to create PubSub Service: %s'' [ArgErr e])) (\<lambda>_.
     let newTopicsService = pubsubService in
     andThen (getPermissionsOnTopic a newTopicsService projectID topic) (\<lambda>(perms, err).
     andThen (ifErr err (\<lambda>e. printf ''Failed to get permissions on topic: %s'' [ArgErr e])) (\<lambda>_.
     andThen (case perms of
                None \<Rightarrow> ret ()
              | Some p \<Rightarrow> forEach (Permissions p) (\<lambda>perm. printf ''Allowed: %v'' [ArgStr perm]))
       (\<lambda>_.
     andThen (deref topic) (\<lambda>t.
     andThen (createSubscription a newPubsubService projectID testSubscriptionName (Name t))
       (\<lambda>(testSub, err).
     andThen (ifErr err (\<lambda>e.
                printf ''Failed to create subscription with only a topic role: %s'' [ArgErr e]))
       (\<lambda>_.
     andThen (case testSub of
                None \<Rightarrow> ret ()
              | Some sub \<Rightarrow>
                  andThen (if cleanup
                           then andThen (deref topic) (\<lambda>t.
                                  deferCall (DeferDeleteSubscription newPubsubService projectID
                                               testSubscriptionName (Name t)))
                           else ret ()) (\<lambda>_.
                  andThen (println ''SUCCESS using topic role!'') (\<lambda>_.
                  printf ''%+v'' [ArgSub sub]))) (\<lambda>_.
     ret newPubsubService)))))))))))))))))"

text \<open>
  Lines 379-422: a client with the project scope, the project-wide grant through the
  first \<open>projectsService\<close>, the permissions on the project, and the second subscription
  through \<open>newPubsubService\<close>.
\<close>

definition mainF ::
  "('w, 'c, 's) api \<Rightarrow> string \<Rightarrow> 's option \<Rightarrow> serviceAccount option \<Rightarrow> 's option
     \<Rightarrow> topic option \<Rightarrow> (unit, 'w, 's) prog" where
  "mainF a projectID projectsService serviceAccount newPubsubService topic =
     andThen (consult (Event ''google.DefaultClient'' None [PubsubScope, CloudPlatformScope]) snd
                (DefaultClient a [PubsubScope, CloudPlatformScope])) (\<lambda>(newGCPClient, err).
     andThen (ifErr err (\<lambda>e. printf ''Failed to get new Google Default Client: %s'' [ArgErr e])) (\<lambda>_.
     andThen (call (Event ''cloudresourcemanager.New'' None []) snd (CloudresNew a newGCPClient))
       (\<lambda>(newCloudResService, err).
     andThen (ifErr err (\<lambda>e. printf ''Failed to create CloudRes Service: %s'' [ArgErr e])) (\<lambda>_.
     let newProjectsService = newCloudResService in
     andThen (grantProjectPermissions a projectsService projectID serviceAccount
                [pubsubRolePrefix @ ''subscriber'']) (\<lambda>err.
     andThen (ifErr err (\<lambda>e. printf ''Failed to grant global permission: %s'' [ArgErr e])) (\<lambda>_.
     andThen (getPermissions a newProjectsService projectID) (\<lambda>(projectPerms, err).
     andThen (ifErr err (\<lambda>e. printf ''Failed to get project permissions: %s'' [ArgErr e])) (\<lambda>_.
     andThen (case projectPerms of
                None \<Rightarrow> ret ()
              | Some p \<Rightarrow> forEach (Permissions p) (\<lambda>perm. printf ''Allowed: %v'' [ArgStr perm]))
       (\<lambda>_.
     andThen (deref topic) (\<lambda>t.
     andThen (createSubscription a newPubsubService projectID (testSubscriptionName @ ''2'')
                (Name t)) (\<lambda>(testSub2, err).
     andThen (ifErr err (\<lambda>e.
                printf ''Failed to create subscription, even with global role: %s'' [ArgErr e]))
       (\<lambda>_.
     (case testSub2 of
        None \<Rightarrow> ret ()
      | Some sub \<Rightarrow>
          andThen (if cleanup
                   then andThen (deref topic) (\<lambda>t.
                          deferCall (DeferDeleteSubscription newPubsubService projectID
                                       (testSubscriptionName @ ''2'') (Name t)))
                   else ret ()) (\<lambda>_.
          andThen (println ''SUCCESS using global role!'') (\<lambda>_.
          printf ''%+v'' [ArgSub sub])))))))))))))))"

text \<open>
  Lines 241-377, up to and including the first attempt at a subscription, and the whole
  body: lines 379-422 follow.
\<close>

definition mainFirst ::
  "('w, 'c, 's) api
     \<Rightarrow> (string \<times> 's option \<times> serviceAccount option \<times> 's option \<times> topic option, 'w, 's) prog" where
  "mainFirst a =
     andThen (mainA a) (\<lambda>projectID.
     andThen (mainB a projectID)
       (\<lambda>(gcpClient, projectsService, iamServiceAccountsService, iamKeysService,
          serviceAccount).
     andThen (mainC a projectID gcpClient) (\<lambda>(pubsubService, topicsService, topic).
     andThen (mainD a iamKeysService topicsService topic serviceAccount) (\<lambda>(decodedKey, file).
     andThen (mainE a projectID pubsubService topic decodedKey file) (\<lambda>newPubsubService.
     ret (projectID, projectsService, serviceAccount, newPubsubService, topic))))))"

definition mainBody :: "('w, 'c, 's) api \<Rightarrow> (unit, 'w, 's) prog" where
  "mainBody a =
     andThen (mainFirst a)
       (\<lambda>(projectID, projectsService, serviceAccount, newPubsubService, topic).
     mainF a projectID projectsService serviceAccount newPubsubService topic)"

text \<open>
  A deferred call runs the function with the arguments it was registered with; what the
  function returns is dropped.
\<close>

definition runDeferredCall :: "('w, 'c, 's) api \<Rightarrow> 's deferred \<Rightarrow> (unit, 'w, 's) prog" where
  "runDeferredCall a d =
     (case d of
        DeferDeleteServiceAccount iamServiceAccountsService sa \<Rightarrow>
          andThen (deleteServiceAccount a iamServiceAccountsService sa) (\<lambda>_. ret ())
      | DeferDeleteTopic topicsService topic \<Rightarrow>
          andThen (deleteTopic a topicsService topic) (\<lambda>_. ret ())
      | DeferRemove name \<Rightarrow>
          andThen (system (Event ''os.Remove'' None [name]) id (Remove a name)) (\<lambda>_. ret ())
      | DeferDeleteSubscription pubsubService projectID subscriptionName topicName \<Rightarrow>
          andThen (deleteSubscription a pubsubService projectID subscriptionName topicName)
            (\<lambda>_. ret ()))"

text \<open>
  When \<open>main\<close> returns or panics, its deferred calls run, last deferred first. A
  deferred call that panics does not stop the ones below it. The flag says whether one
  of them panicked.
\<close>

fun runDeferred ::
  "('w, 'c, 's) api \<Rightarrow> 's deferred list \<Rightarrow> ('w, 's) proc \<Rightarrow> bool \<times> ('w, 's) proc" where
  "runDeferred a [] s = (False, s)"
| "runDeferred a (d # ds) s =
     (case runDeferredCall a d (s\<lparr>unwound := unwound s @ [d]\<rparr>) of (r, s') \<Rightarrow>
        (case runDeferred a ds s' of (p, s'') \<Rightarrow> (r \<noteq> Val () \<or> p, s'')))"

text \<open>
  The process: the exit status and what it left behind. \<open>os.Exit\<close> runs no deferred
  call; a return from \<open>main\<close> is status 0; a panic, in the body or in a deferred call,
  ends in status 2 once the deferred calls have run.
\<close>

definition start :: "'w \<Rightarrow> ('w, 's) proc" where
  "start w = \<lparr>world = w, logged = [], events = [], deferred = [], unwound = []\<rparr>"

definition main :: "('w, 'c, 's) api \<Rightarrow> 'w \<Rightarrow> nat \<times> ('w, 's) proc" where
  "main a w =
     (case mainBody a (start w) of
        (r, s) \<Rightarrow>
          (case r of
             Exit n \<Rightarrow> (n, s)
           | Panic \<Rightarrow> (case runDeferred a (deferred s) s of (p, s') \<Rightarrow> (2, s'))
           | Val _ \<Rightarrow> (case runDeferred a (deferred s) s of (p, s') \<Rightarrow>
               (if p then 2 else 0, s'))))"



fun servicesOf :: "string \<Rightarrow> 's event list \<Rightarrow> 's option list" where
  "servicesOf method [] = []"
| "servicesOf method (Event m h args err # evs) =
     (if m = method then h # servicesOf method evs else servicesOf method evs)"

section \<open>A mocked provider\<close>

text \<open>
  Modelled from the spec: the provider. The identity, messaging and resource-manager
  services, the credential layer and the operating system are outside the repository
  (``consumed as opaque services''), so the end-to-end run is made against a mock that
  follows what the spec says of the provider: an identity with only a topic-scoped
  subscriber grant cannot create a subscription; an identity with a project-wide role
  can; the permission checks answer with a bad-request error. A client is the
  \<open>client_email\<close> of the credential file it was built from, and a service is the client
  it wraps.
\<close>

record mock =
  envVars :: "(string \<times> string) list"
  files :: "(string \<times> string) list"
  accounts :: "serviceAccount list"
  topicPolicies :: "(string \<times> policy) list"
  projectPolicy :: policy
  subscriptions :: "subscription list"
  topicsDown :: bool

definition ownerEmail :: string where
  "ownerEmail = ''owner@p1.iam.gserviceaccount.com''"

definition testSaEmail :: string where
  "testSaEmail = ''test-sa@p1.iam.gserviceaccount.com''"

definition ownerDocument :: string where
  "ownerDocument =
     ''{type: service_account, project_id: p1, client_email: owner@p1.iam.gserviceaccount.com}''"

definition testSaDocument :: string where
  "testSaDocument =
     ''{type: service_account, project_id: p1, client_email: test-sa@p1.iam.gserviceaccount.com}''"

definition testSaDocumentBase64 :: string where
  "testSaDocumentBase64 =
     ''e3R5cGU6IHNlcnZpY2VfYWNjb3VudCwgcHJvamVjdF9pZDogcDEsIGNsaWVudF9lbWFpbDogdGVzdC1zYUBwMS5pYW0uZ3NlcnZpY2VhY2NvdW50LmNvbX0=''"

definition mockDocuments :: "(string \<times> JWT) list" where
  "mockDocuments =
     [(ownerDocument, zeroJWT\<lparr>Type := ''service_account'', ProjectID := ''p1'',
                              ClientEmail := ownerEmail\<rparr>),
      (testSaDocument, zeroJWT\<lparr>Type := ''service_account'', ProjectID := ''p1'',
                               ClientEmail := testSaEmail\<rparr>)]"

definition mockUnmarshal :: "string \<Rightarrow> JWT option \<times> error option" where
  "mockUnmarshal raw =
     (case map_of mockDocuments raw of
        Some j \<Rightarrow> (Some j, None)
      | None \<Rightarrow> (Some zeroJWT, Some (Err ''invalid character'')))"

definition mockDecodeString :: "string \<Rightarrow> string \<times> error option" where
  "mockDecodeString x =
     (if x = testSaDocumentBase64 then (testSaDocument, None)
      else ('''', Some (Err ''illegal base64 data'')))"

definition mockGetenv :: "string \<Rightarrow> mock \<Rightarrow> string" where
  "mockGetenv k w = (case map_of (envVars w) k of None \<Rightarrow> '''' | Some v \<Rightarrow> v)"

definition mockSetenv :: "string \<Rightarrow> string \<Rightarrow> mock \<Rightarrow> error option \<times> mock" where
  "mockSetenv k v w = (None, w\<lparr>envVars := (k, v) # envVars w\<rparr>)"

definition mockReadFile :: "string \<Rightarrow> mock \<Rightarrow> string \<times> error option" where
  "mockReadFile path w =
     (case map_of (files w) path of
        None \<Rightarrow> ('''', Some (Err ''no such file or directory''))
      | Some c \<Rightarrow> (c, None))"

definition mockWriteFile :: "string \<Rightarrow> string \<Rightarrow> mock \<Rightarrow> error option \<times> mock" where
  "mockWriteFile path c w = (None, w\<lparr>files := (path, c) # files w\<rparr>)"

definition mockTempFile ::
  "string \<Rightarrow> string \<Rightarrow> mock \<Rightarrow> (osFile option \<times> error option) \<times> mock" where
  "mockTempFile dir prefix w =
     (let name = dir @ ''/'' @ prefix @ ''key'' in
      ((Some \<lparr>Name = name\<rparr>, None), w\<lparr>files := (name, '''') # files w\<rparr>))"

definition mockRemove :: "string \<Rightarrow> mock \<Rightarrow> error option \<times> mock" where
  "mockRemove path w =
     (case map_of (files w) path of
        None \<Rightarrow> (Some (Err ''no such file or directory''), w)
      | Some c \<Rightarrow> (None, w\<lparr>files := filter (\<lambda>kv. fst kv \<noteq> path) (files w)\<rparr>))"

definition mockDefaultClient :: "string list \<Rightarrow> mock \<Rightarrow> string option \<times> error option" where
  "mockDefaultClient scopes w =
     (case mockReadFile (mockGetenv ''GOOGLE_APPLICATION_CREDENTIALS'' w) w of
        (raw, Some e) \<Rightarrow> (None, Some e)
      | (raw, None) \<Rightarrow>
          (case mockUnmarshal raw of
             (Some j, None) \<Rightarrow> (Some (ClientEmail j), None)
           | (Some j, Some e) \<Rightarrow> (None, Some e)
           | (None, e) \<Rightarrow> (None, Some (Err ''no credentials''))))"

definition mockNew :: "string option \<Rightarrow> string option \<times> error option" where
  "mockNew client =
     (case client of
        None \<Rightarrow> (None, Some (Err ''client is nil''))
      | Some c \<Rightarrow> (Some c, None))"

text \<open>
  Modelled from the spec: who may do what. Only a binding of the project's policy
  counts. An identity may administer the project (create and delete accounts, keys and
  topics, read and write policies) when the project's policy binds it to
  \<open>roles/owner\<close>, and may create or delete a subscription when the project's policy
  binds it to \<open>roles/owner\<close> or \<open>roles/pubsub.subscriber\<close>. A binding of a topic's
  policy gives neither.
\<close>

definition holdsRole :: "policy \<Rightarrow> string list \<Rightarrow> string \<Rightarrow> bool" where
  "holdsRole pol roles who =
     list_ex (\<lambda>b. Role b \<in> set roles \<and> saBindingPrefix @ who \<in> set (Members b)) (Bindings pol)"

definition mayAdminister :: "mock \<Rightarrow> string \<Rightarrow> bool" where
  \<comment> \<open>Modelled from the spec: the full-access credential is the project's owner.\<close>
  "mayAdminister w who = holdsRole (projectPolicy w) [''roles/owner''] who"

definition maySubscribe :: "mock \<Rightarrow> string \<Rightarrow> bool" where
  \<comment> \<open>Modelled from the spec: only a project-wide role lets an identity create a
    subscription; a role granted on the topic does not.\<close>
  "maySubscribe w who =
     holdsRole (projectPolicy w) [''roles/owner'', ''roles/pubsub.subscriber''] who"

definition forbidden :: error where
  "forbidden = Err ''googleapi: Error 403: User not authorized to perform this action., forbidden''"

definition badRequest :: error where
  "badRequest = Err ''googleapi: Error 400: The IAM operation failed with a non-retryable error: Unknown error., badRequest''"

definition notFound :: error where
  "notFound = Err ''googleapi: Error 404: Resource not found., notFound''"

definition alreadyExists :: error where
  "alreadyExists = Err ''googleapi: Error 409: Resource already exists., alreadyExists''"

definition unavailable :: error where
  "unavailable = Err ''googleapi: Error 503: The service is currently unavailable., backendError''"

definition mockServiceAccountsCreate ::
  "string option \<Rightarrow> string \<Rightarrow> string \<Rightarrow> string \<Rightarrow> mock
     \<Rightarrow> (serviceAccount option \<times> error option) outcome \<times> mock" where
  "mockServiceAccountsCreate svc resourceName accountId displayName w =
     (case svc of
        None \<Rightarrow> (Crashed, w)
      | Some who \<Rightarrow>
          (let email = accountId @ ''@'' @ drop (length projectResourcePrefix) resourceName
                         @ ''.iam.gserviceaccount.com'';
               sa = \<lparr>Name = resourceName @ ''/serviceAccounts/'' @ email, Email = email\<rparr>
           in if \<not> mayAdminister w who then (Returned (None, Some forbidden), w)
              else if list_ex (\<lambda>x. Email x = email) (accounts w)
              then (Returned (None, Some alreadyExists), w)
              else (Returned (Some sa, None), w\<lparr>accounts := sa # accounts w\<rparr>)))"

definition mockServiceAccountsDelete ::
  "string option \<Rightarrow> string \<Rightarrow> mock \<Rightarrow> error option outcome \<times> mock" where
  "mockServiceAccountsDelete svc name w =
     (case svc of
        None \<Rightarrow> (Crashed, w)
      | Some who \<Rightarrow>
          (if \<not> mayAdminister w who then (Returned (Some forbidden), w)
           else if \<not> list_ex (\<lambda>x. Name x = name) (accounts w) then (Returned (Some notFound), w)
           else (Returned None, w\<lparr>accounts := filter (\<lambda>x. Name x \<noteq> name) (accounts w)\<rparr>)))"

definition mockKeysCreate ::
  "string option \<Rightarrow> string \<Rightarrow> mock
     \<Rightarrow> (serviceAccountKey option \<times> error option) outcome \<times> mock" where
  "mockKeysCreate svc name w =
     (case svc of
        None \<Rightarrow> (Crashed, w)
      | Some who \<Rightarrow>
          (if \<not> mayAdminister w who then (Returned (None, Some forbidden), w)
           else if \<not> list_ex (\<lambda>x. Name x = name \<and> Email x = testSaEmail) (accounts w)
           then (Returned (None, Some notFound), w)
           else (Returned (Some \<lparr>Name = name @ ''/keys/1'',
                                 PrivateKeyData = testSaDocumentBase64\<rparr>, None), w)))"

definition mockTopicsCreate ::
  "string option \<Rightarrow> string \<Rightarrow> topic \<Rightarrow> mock \<Rightarrow> (topic option \<times> error option) outcome \<times> mock" where
  "mockTopicsCreate svc name body w =
     (case svc of
        None \<Rightarrow> (Crashed, w)
      | Some who \<Rightarrow>
          (if topicsDown w then (Returned (None, Some unavailable), w)
           else if \<not> mayAdminister w who then (Returned (None, Some forbidden), w)
           else if map_of (topicPolicies w) name \<noteq> None
           then (Returned (None, Some alreadyExists), w)
           else (Returned (Some \<lparr>Name = name\<rparr>, None),
                 w\<lparr>topicPolicies := (name, \<lparr>Bindings = []\<rparr>) # topicPolicies w\<rparr>)))"

definition mockTopicsDelete ::
  "string option \<Rightarrow> string \<Rightarrow> mock \<Rightarrow> error option outcome \<times> mock" where
  "mockTopicsDelete svc name w =
     (case svc of
        None \<Rightarrow> (Crashed, w)
      | Some who \<Rightarrow>
          (if \<not> mayAdminister w who then (Returned (Some forbidden), w)
           else if map_of (topicPolicies w) name = None then (Returned (Some notFound), w)
           else (Returned None,
                 w\<lparr>topicPolicies := filter (\<lambda>kv. fst kv \<noteq> name) (topicPolicies w)\<rparr>)))"

definition mockTopicsGetIamPolicy ::
  "string option \<Rightarrow> string \<Rightarrow> mock \<Rightarrow> (policy option \<times> error option) outcome \<times> mock" where
  "mockTopicsGetIamPolicy svc name w =
     (case svc of
        None \<Rightarrow> (Crashed, w)
      | Some who \<Rightarrow>
          (if \<not> mayAdminister w who then (Returned (None, Some forbidden), w)
           else (case map_of (topicPolicies w) name of
                   None \<Rightarrow> (Returned (None, Some notFound), w)
                 | Some p \<Rightarrow> (Returned (Some p, None), w))))"

definition mockTopicsSetIamPolicy ::
  "string option \<Rightarrow> string \<Rightarrow> policy \<Rightarrow> mock
     \<Rightarrow> (policy option \<times> error option) outcome \<times> mock" where
  "mockTopicsSetIamPolicy svc name p w =
     (case svc of
        None \<Rightarrow> (Crashed, w)
      | Some who \<Rightarrow>
          (if \<not> mayAdminister w who then (Returned (None, Some forbidden), w)
           else if map_of (topicPolicies w) name = None then (Returned (None, Some notFound), w)
           else (Returned (Some p, None), w\<lparr>topicPolicies := (name, p) # topicPolicies w\<rparr>)))"

definition mockTestIamPermissions ::
  "string option \<Rightarrow> string \<Rightarrow> string list \<Rightarrow> mock
     \<Rightarrow> (testIamPermissionsResponse option \<times> error option) outcome \<times> mock" where
  \<comment> \<open>Modelled from the spec: the permission checks answer with a bad-request error.\<close>
  "mockTestIamPermissions svc name perms w =
     (case svc of
        None \<Rightarrow> (Crashed, w)
      | Some who \<Rightarrow> (Returned (None, Some badRequest), w))"

definition mockSubscriptionsCreate ::
  "string \<Rightarrow> string \<Rightarrow> subscription \<Rightarrow> mock
     \<Rightarrow> (subscription option \<times> error option) outcome \<times> mock" where
  \<comment> \<open>Modelled from the spec: creation is refused with an authorization error unless
    the caller may subscribe in the project.\<close>
  "mockSubscriptionsCreate who name body w =
     (if \<not> maySubscribe w who then (Returned (None, Some forbidden), w)
      else if map_of (topicPolicies w) (Topic body) = None then (Returned (None, Some notFound), w)
      else if list_ex (\<lambda>x. Name x = name) (subscriptions w)
      then (Returned (None, Some alreadyExists), w)
      else (Returned (Some \<lparr>Name = name, Topic = Topic body\<rparr>, None),
            w\<lparr>subscriptions := \<lparr>Name = name, Topic = Topic body\<rparr> # subscriptions w\<rparr>))"

definition mockSubscriptionsDelete ::
  "string \<Rightarrow> string \<Rightarrow> mock \<Rightarrow> error option outcome \<times> mock" where
  "mockSubscriptionsDelete who name w =
     (if \<not> maySubscribe w who then (Returned (Some forbidden), w)
      else if \<not> list_ex (\<lambda>x. Name x = name) (subscriptions w) then (Returned (Some notFound), w)
      else (Returned None,
            w\<lparr>subscriptions := filter (\<lambda>x. Name x \<noteq> name) (subscriptions w)\<rparr>))"

definition mockProjectsGetIamPolicy ::
  "string option \<Rightarrow> string \<Rightarrow> mock \<Rightarrow> (policy option \<times> error option) outcome \<times> mock" where
  "mockProjectsGetIamPolicy svc projectID w =
     (case svc of
        None \<Rightarrow> (Crashed, w)
      | Some who \<Rightarrow>
          (if \<not> mayAdminister w who then (Returned (None, Some forbidden), w)
           else (Returned (Some (projectPolicy w), None), w)))"

definition mockProjectsSetIamPolicy ::
  "string option \<Rightarrow> string \<Rightarrow> policy \<Rightarrow> mock
     \<Rightarrow> (policy option \<times> error option) outcome \<times> mock" where
  "mockProjectsSetIamPolicy svc projectID p w =
     (case svc of
        None \<Rightarrow> (Crashed, w)
      | Some who \<Rightarrow>
          (if \<not> mayAdminister w who then (Returned (None, Some forbidden), w)
           else (Returned (Some p, None), w\<lparr>projectPolicy := p\<rparr>)))"

definition mockApi :: "(mock, string, string) api" where
  "mockApi =
     \<lparr>Getenv = mockGetenv, Setenv = mockSetenv, ReadFile = mockReadFile,
      WriteFile = mockWriteFile, TempDir = (\<lambda>w. ''/tmp''), TempFile = mockTempFile,
      Remove = mockRemove, Unmarshal = mockUnmarshal, DecodeString = mockDecodeString,
      DefaultClient = mockDefaultClient, CloudresNew = mockNew, IamNew = mockNew,
      PubsubNew = mockNew,
      ServiceAccountsCreate = mockServiceAccountsCreate,
      ServiceAccountsDelete = mockServiceAccountsDelete,
      KeysCreate = mockKeysCreate,
      TopicsCreate = mockTopicsCreate, TopicsDelete = mockTopicsDelete,
      TopicsGetIamPolicy = mockTopicsGetIamPolicy, TopicsSetIamPolicy = mockTopicsSetIamPolicy,
      TopicsTestIamPermissions = mockTestIamPermissions,
      SubscriptionsCreate = mockSubscriptionsCreate,
      SubscriptionsDelete = mockSubscriptionsDelete,
      ProjectsGetIamPolicy = mockProjectsGetIamPolicy,
      ProjectsSetIamPolicy = mockProjectsSetIamPolicy,
      ProjectsTestIamPermissions = mockTestIamPermissions\<rparr>"

text \<open>
  The world before the run: the credential variable points at the owner's key file, the
  project's policy binds the owner to \<open>roles/owner\<close>, and nothing else exists.
\<close>

definition mockWorld :: mock where
  "mockWorld =
     \<lparr>envVars = [(''GOOGLE_APPLICATION_CREDENTIALS'', ''/home/owner/key.json'')],
      files = [(''/home/owner/key.json'', ownerDocument)],
      accounts = [],
      topicPolicies = [],
      projectPolicy =
        \<lparr>Bindings = [\<lparr>Members = [saBindingPrefix @ ownerEmail], Role = ''roles/owner''\<rparr>]\<rparr>,
      subscriptions = [],
      topicsDown = False\<rparr>"

section \<open>A provider where every step can fail\<close>



section \<open>Properties of statements and of providers\<close>




text \<open>
  What a statement does to the deferred calls: nothing (\<open>quiet\<close>); one call registered
  exactly when it yields a value (\<open>pushes\<close>); at most one call registered
  (\<open>mayPush\<close>); from a stack in \<open>A\<close> to one in \<open>B\<close> when it yields a value and one in
  \<open>E\<close> when it does not (\<open>stacks\<close>). \<open>noExit\<close>: it never ends the process by
  \<open>os.Exit\<close>. \<open>fine\<close>: it yields a value satisfying \<open>R\<close> and keeps every registered
  call free of \<open>nil\<close> arguments (\<open>safeCall\<close>).
\<close>

named_theorems quiet_intros

named_theorems noExit_intros

definition quiet :: "('a, 'w, 's) prog \<Rightarrow> bool" where
  "quiet m = (\<forall>s. deferred (snd (m s)) = deferred s \<and> unwound (snd (m s)) = unwound s)"

definition noExit :: "('a, 'w, 's) prog \<Rightarrow> bool" where
  "noExit m = (\<forall>s n. fst (m s) \<noteq> Exit n)"






text \<open>
  The errors the recorded calls returned and the errors the logged lines carry, each in
  order. A line carries an error when the error is its only argument, as in every
  \<open>log.Printf("Failed to ...: %s\n", err)\<close> of \<open>main\<close>.
\<close>

fun returnedError :: "'s event \<Rightarrow> error list" where
  "returnedError (Event m h args None) = []"
| "returnedError (Event m h args (Some e)) = [e]"

fun loggedError :: "logline \<Rightarrow> error list" where
  "loggedError (Printf fmt [ArgErr e]) = [e]"
| "loggedError l = []"

definition returnedErrors :: "'s event list \<Rightarrow> error list" where
  "returnedErrors evs = concat (map returnedError evs)"

definition loggedErrors :: "logline list \<Rightarrow> error list" where
  "loggedErrors ls = concat (map loggedError ls)"

text \<open>
  \<open>told p s\<close>: in state \<open>s\<close> every error returned so far has been logged, but for
  the errors \<open>p\<close>, returned last and still to be logged. \<open>tells p m q\<close>: the statement
  \<open>m\<close>, started with \<open>p\<close> still to be logged, leaves \<open>q x\<close> to be logged when it
  yields \<open>x\<close>, and nothing when it panics or exits.
\<close>

fun pending :: "error option \<Rightarrow> error list" where
  "pending None = []"
| "pending (Some e) = [e]"

definition told :: "error list \<Rightarrow> ('w, 's) proc \<Rightarrow> bool" where
  "told p s = (returnedErrors (events s) = loggedErrors (logged s) @ p)"

definition tells :: "error list \<Rightarrow> ('a, 'w, 's) prog \<Rightarrow> ('a \<Rightarrow> error list) \<Rightarrow> bool" where
  "tells p m q =
     (\<forall>s. told p s \<longrightarrow> (case m s of (Val x, s') \<Rightarrow> told (q x) s' | (r, s') \<Rightarrow> told [] s'))"

named_theorems tells_intros





section \<open>Resource names\<close>

text \<open>
  C8: \<open>topicResourceName p t\<close> is exactly \<open>projects/\<close> + p + \<open>/topics/\<close> + t, and
  \<open>subscriptionResourceName p s\<close> is exactly \<open>projects/\<close> + p + \<open>/subscriptions/\<close> + s;
  project \<open>p1\<close> with topic \<open>t1\<close> gives \<open>projects/p1/topics/t1\<close>.
\<close>

theorem resource_names_exact:
  "topicResourceName p t = ''projects/'' @ p @ ''/topics/'' @ t
   \<and> subscriptionResourceName p s = ''projects/'' @ p @ ''/subscriptions/'' @ s
   \<and> topicResourceName ''p1'' ''t1'' = ''projects/p1/topics/t1''"
  by (simp add: topicResourceName_def subscriptionResourceName_def
      projectResourcePrefix_def topicPrefix_def subscriptionPrefix_def)

section \<open>The binding merge\<close>

lemma collapseBindings_None:
  "(collapseBindings bs role = None) = (\<forall>b \<in> set bs. Role b \<noteq> roleResourcePrefix @ role)"
  by (induction bs) auto

lemma collapsePubsubBindings_eq:
  "collapsePubsubBindings bs role = collapseBindings bs role"
  by (induction bs) auto

lemma collapseBindings_Some:
  "collapseBindings bs role = Some i \<Longrightarrow>
     i < length bs \<and> Role (bs ! i) = roleResourcePrefix @ role
     \<and> (\<forall>j < i. Role (bs ! j) \<noteq> roleResourcePrefix @ role)"
proof (induction bs arbitrary: i)
  case Nil
  then show ?case by simp
next
  case (Cons b bs)
  show ?case
  proof (cases "Role b = roleResourcePrefix @ role")
    case True
    with Cons.prems show ?thesis by simp
  next
    case False
    with Cons.prems obtain k where k: "collapseBindings bs role = Some k" and i: "i = Suc k"
      by auto
    from Cons.IH [OF k] False i show ?thesis
      by (auto simp: nth_Cons split: nat.splits)
  qed
qed

lemma addMemberToPubSubPolicy_eq:
  "addMemberToPubSubPolicy pol sa role = addMemberToPolicy pol sa role"
  by (cases pol) (simp_all add: addMemberToPubSubPolicy_def addMemberToPolicy_def
      collapsePubsubBindings_eq)

lemma addMemberToPolicy_absent:
  assumes "\<forall>b \<in> set (Bindings p). Role b \<noteq> roleResourcePrefix @ role"
  shows "addMemberToPolicy (Some p) (Some sa) role =
     Inr (p\<lparr>Bindings := Bindings p @
        [\<lparr>Members = [saBindingPrefix @ Email sa], Role = roleResourcePrefix @ role\<rparr>]\<rparr>)"
proof -
  from assms have "collapseBindings (Bindings p) role = None"
    by (simp add: collapseBindings_None)
  then show ?thesis by (simp add: addMemberToPolicy_def)
qed

lemma addMemberToPolicy_present:
  assumes "\<exists>b \<in> set (Bindings p). Role b = roleResourcePrefix @ role"
  shows "\<exists>i < length (Bindings p).
     Role (Bindings p ! i) = roleResourcePrefix @ role
     \<and> (\<forall>j < i. Role (Bindings p ! j) \<noteq> roleResourcePrefix @ role)
     \<and> addMemberToPolicy (Some p) (Some sa) role =
         Inr (p\<lparr>Bindings := (Bindings p)
               [i := (Bindings p ! i)
                  \<lparr>Members := Members (Bindings p ! i) @ [saBindingPrefix @ Email sa]\<rparr>]\<rparr>)"
proof -
  from assms have "collapseBindings (Bindings p) role \<noteq> None"
    by (simp add: collapseBindings_None)
  then obtain i where i: "collapseBindings (Bindings p) role = Some i" by auto
  from collapseBindings_Some [OF i] i show ?thesis
    by (auto simp: addMemberToPolicy_def)
qed



text \<open>
  C6: when no binding of the policy carries the role (\<open>roles/\<close> + role), both merge
  functions keep the existing bindings as they are and append exactly one binding, with
  that prefixed role and the one member \<open>serviceAccount:\<close> + e-mail.
\<close>

theorem merge_appends_one_binding_when_role_absent:
  assumes "\<forall>b \<in> set (Bindings p). Role b \<noteq> roleResourcePrefix @ role"
  shows "addMemberToPolicy (Some p) (Some sa) role =
      Inr (p\<lparr>Bindings := Bindings p @
         [\<lparr>Members = [saBindingPrefix @ Email sa], Role = roleResourcePrefix @ role\<rparr>]\<rparr>)
    \<and> addMemberToPubSubPolicy (Some p) (Some sa) role =
      Inr (p\<lparr>Bindings := Bindings p @
         [\<lparr>Members = [saBindingPrefix @ Email sa], Role = roleResourcePrefix @ role\<rparr>]\<rparr>)"
  using addMemberToPolicy_absent [OF assms] by (simp add: addMemberToPubSubPolicy_eq)

theorem merge_appends_one_binding_when_role_absent_witness:
  "addMemberToPolicy
      (Some \<lparr>Bindings = [\<lparr>Members = [''user:owner@example.com''], Role = ''roles/owner''\<rparr>]\<rparr>)
      (Some \<lparr>Name = ''projects/p1/serviceAccounts/test-sa'', Email = ''test-sa@p1.example''\<rparr>)
      ''pubsub.subscriber''
    = Inr \<lparr>Bindings = [\<lparr>Members = [''user:owner@example.com''], Role = ''roles/owner''\<rparr>,
                       \<lparr>Members = [''serviceAccount:test-sa@p1.example''],
                        Role = ''roles/pubsub.subscriber''\<rparr>]\<rparr>
   \<and> addMemberToPubSubPolicy
      (Some \<lparr>Bindings = [\<lparr>Members = [''user:owner@example.com''], Role = ''roles/owner''\<rparr>]\<rparr>)
      (Some \<lparr>Name = ''projects/p1/serviceAccounts/test-sa'', Email = ''test-sa@p1.example''\<rparr>)
      ''pubsub.subscriber''
    = Inr \<lparr>Bindings = [\<lparr>Members = [''user:owner@example.com''], Role = ''roles/owner''\<rparr>,
                       \<lparr>Members = [''serviceAccount:test-sa@p1.example''],
                        Role = ''roles/pubsub.subscriber''\<rparr>]\<rparr>"
  using merge_appends_one_binding_when_role_absent
    [of "\<lparr>Bindings = [\<lparr>Members = [''user:owner@example.com''], Role = ''roles/owner''\<rparr>]\<rparr>"
        "''pubsub.subscriber''"
        "\<lparr>Name = ''projects/p1/serviceAccounts/test-sa'', Email = ''test-sa@p1.example''\<rparr>"]
  by (simp add: roleResourcePrefix_def saBindingPrefix_def)

text \<open>
  C7: when some binding of the policy carries the role, both merge functions append the
  member \<open>serviceAccount:\<close> + e-mail to the member list of the first such binding and
  change nothing else: the policy has as many bindings as before, with the same roles in
  the same slots.
\<close>

theorem merge_extends_existing_binding:
  assumes "\<exists>b \<in> set (Bindings p). Role b = roleResourcePrefix @ role"
  shows "\<exists>p' i. addMemberToPolicy (Some p) (Some sa) role = Inr p'
      \<and> addMemberToPubSubPolicy (Some p) (Some sa) role = Inr p'
      \<and> length (Bindings p') = length (Bindings p)
      \<and> map Role (Bindings p') = map Role (Bindings p)
      \<and> i < length (Bindings p)
      \<and> Role (Bindings p ! i) = roleResourcePrefix @ role
      \<and> (\<forall>j < i. Role (Bindings p ! j) \<noteq> roleResourcePrefix @ role)
      \<and> p' = p\<lparr>Bindings := (Bindings p)
               [i := (Bindings p ! i)
                  \<lparr>Members := Members (Bindings p ! i) @ [saBindingPrefix @ Email sa]\<rparr>]\<rparr>"
proof -
  from addMemberToPolicy_present [OF assms, of sa]
  obtain i where i: "i < length (Bindings p)"
    and r: "Role (Bindings p ! i) = roleResourcePrefix @ role"
    and f: "\<forall>j < i. Role (Bindings p ! j) \<noteq> roleResourcePrefix @ role"
    and a: "addMemberToPolicy (Some p) (Some sa) role =
         Inr (p\<lparr>Bindings := (Bindings p)
               [i := (Bindings p ! i)
                  \<lparr>Members := Members (Bindings p ! i) @ [saBindingPrefix @ Email sa]\<rparr>]\<rparr>)"
    by blast
  have m: "map Role ((Bindings p)
        [i := (Bindings p ! i)
           \<lparr>Members := Members (Bindings p ! i) @ [saBindingPrefix @ Email sa]\<rparr>])
      = map Role (Bindings p)"
    using i by (simp add: map_update list_update_same_conv)
  let ?p' = "p\<lparr>Bindings := (Bindings p)
               [i := (Bindings p ! i)
                  \<lparr>Members := Members (Bindings p ! i) @ [saBindingPrefix @ Email sa]\<rparr>]\<rparr>"
  have "addMemberToPolicy (Some p) (Some sa) role = Inr ?p'
      \<and> addMemberToPubSubPolicy (Some p) (Some sa) role = Inr ?p'
      \<and> length (Bindings ?p') = length (Bindings p)
      \<and> map Role (Bindings ?p') = map Role (Bindings p)
      \<and> i < length (Bindings p)
      \<and> Role (Bindings p ! i) = roleResourcePrefix @ role
      \<and> (\<forall>j < i. Role (Bindings p ! j) \<noteq> roleResourcePrefix @ role)
      \<and> ?p' = ?p'"
    using i r f a m by (simp add: addMemberToPubSubPolicy_eq)
  then show ?thesis by blast
qed

theorem merge_extends_existing_binding_witness:
  "\<exists>p' i. addMemberToPolicy
        (Some \<lparr>Bindings = [\<lparr>Members = [''user:owner@example.com''], Role = ''roles/owner''\<rparr>,
                          \<lparr>Members = [''user:reader@example.com''],
                           Role = ''roles/pubsub.subscriber''\<rparr>]\<rparr>)
        (Some \<lparr>Name = ''projects/p1/serviceAccounts/test-sa'', Email = ''test-sa@p1.example''\<rparr>)
        ''pubsub.subscriber'' = Inr p'
     \<and> i = 1
     \<and> p' = \<lparr>Bindings = [\<lparr>Members = [''user:owner@example.com''], Role = ''roles/owner''\<rparr>,
                         \<lparr>Members = [''user:reader@example.com'',
                                     ''serviceAccount:test-sa@p1.example''],
                          Role = ''roles/pubsub.subscriber''\<rparr>]\<rparr>"
proof -
  let ?p = "\<lparr>Bindings = [\<lparr>Members = [''user:owner@example.com''], Role = ''roles/owner''\<rparr>,
                         \<lparr>Members = [''user:reader@example.com''],
                          Role = ''roles/pubsub.subscriber''\<rparr>]\<rparr>"
  let ?sa = "\<lparr>Name = ''projects/p1/serviceAccounts/test-sa'', Email = ''test-sa@p1.example''\<rparr>"
  have h: "\<exists>b \<in> set (Bindings ?p). Role b = roleResourcePrefix @ ''pubsub.subscriber''"
    by (simp add: roleResourcePrefix_def)
  from merge_extends_existing_binding [OF h, of ?sa]
  obtain p' i where a: "addMemberToPolicy (Some ?p) (Some ?sa) ''pubsub.subscriber'' = Inr p'"
    and i: "i < length (Bindings ?p)"
    and r: "Role (Bindings ?p ! i) = roleResourcePrefix @ ''pubsub.subscriber''"
    and e: "p' = ?p\<lparr>Bindings := (Bindings ?p)
               [i := (Bindings ?p ! i)
                  \<lparr>Members := Members (Bindings ?p ! i) @ [saBindingPrefix @ Email ?sa]\<rparr>]\<rparr>"
    by blast
  from i have "i = 0 \<or> i = 1" by auto
  with r have i1: "i = 1" by (auto simp: roleResourcePrefix_def)
  from e i1 have "p' = \<lparr>Bindings = [\<lparr>Members = [''user:owner@example.com''], Role = ''roles/owner''\<rparr>,
                         \<lparr>Members = [''user:reader@example.com'',
                                     ''serviceAccount:test-sa@p1.example''],
                          Role = ''roles/pubsub.subscriber''\<rparr>]\<rparr>"
    by (simp add: saBindingPrefix_def)
  with a i1 show ?thesis by blast
qed



section \<open>Statements that leave the deferred calls alone\<close>

lemma quietD: "quiet m \<Longrightarrow> m s = (r, s') \<Longrightarrow> deferred s' = deferred s \<and> unwound s' = unwound s"
  by (metis quiet_def snd_conv)

lemma quiet_ret [quiet_intros]: "quiet (ret x)"
  by (simp add: quiet_def ret_def)

lemma quiet_andThen [quiet_intros]:
  assumes "quiet m" and "\<And>x. quiet (f x)"
  shows "quiet (andThen m f)"
proof -
  have "deferred (snd (andThen m f s)) = deferred s \<and> unwound (snd (andThen m f s)) = unwound s"
    for s
  proof (cases "m s")
    case (Pair r s1)
    note q = quietD [OF assms(1) Pair]
    show ?thesis
    proof (cases r)
      case (Val x)
      obtain r2 s2 where f: "f x s1 = (r2, s2)" by (cases "f x s1")
      from quietD [OF assms(2) f] q Pair Val f show ?thesis by (simp add: andThen_def)
    qed (use q Pair in \<open>simp_all add: andThen_def\<close>)
  qed
  then show ?thesis by (simp add: quiet_def)
qed

lemma quiet_deref [quiet_intros]: "quiet (deref p)"
  by (cases p) (simp_all add: quiet_def deref_def ret_def)

lemma quiet_lift [quiet_intros]: "quiet (lift r)"
  by (cases r) (simp_all add: quiet_def lift_def ret_def)

lemma quiet_printf [quiet_intros]: "quiet (printf fmt args)"
  by (simp add: quiet_def printf_def)

lemma quiet_println [quiet_intros]: "quiet (println msg)"
  by (simp add: quiet_def println_def)

lemma quiet_fatalf [quiet_intros]: "quiet (fatalf fmt args)"
  by (simp add: quiet_def fatalf_def)

lemma quiet_ifErr [quiet_intros]: "(\<And>e. quiet (f e)) \<Longrightarrow> quiet (ifErr err f)"
  by (cases err) (simp_all add: ifErr_def quiet_ret)

lemma quiet_forEach [quiet_intros]: "(\<And>x. quiet (f x)) \<Longrightarrow> quiet (forEach xs f)"
  by (induction xs) (simp_all add: quiet_ret quiet_andThen)

lemma quiet_inspect [quiet_intros]: "quiet (inspect f)"
  by (simp add: quiet_def inspect_def)

lemma quiet_call [quiet_intros]: "quiet (call ev err x)"
  by (simp add: quiet_def call_def)

lemma quiet_consult [quiet_intros]: "quiet (consult ev err f)"
  by (simp add: quiet_def consult_def)

lemma quiet_system [quiet_intros]: "quiet (system ev err f)"
  by (simp add: quiet_def system_def split: prod.split)

lemma quiet_request [quiet_intros]: "quiet (request ev err f)"
  by (simp add: quiet_def request_def split: prod.split outcome.split)

lemma quiet_case_prod [quiet_intros]: "(\<And>x y. quiet (f x y)) \<Longrightarrow> quiet (case_prod f p)"
  by (cases p) simp

lemma quiet_case_option [quiet_intros]:
  "quiet n \<Longrightarrow> (\<And>x. quiet (f x)) \<Longrightarrow> quiet (case_option n f p)"
  by (cases p) simp_all

lemma quiet_if [quiet_intros]: "quiet m \<Longrightarrow> quiet n \<Longrightarrow> quiet (if c then m else n)"
  by simp

lemma quiet_jwtFromFile [quiet_intros]: "quiet (jwtFromFile a p)"
  unfolding jwtFromFile_def by (intro quiet_intros)

lemma quiet_createTopic [quiet_intros]: "quiet (createTopic a h p n)"
  unfolding createTopic_def by (intro quiet_intros)

lemma quiet_deleteTopic [quiet_intros]: "quiet (deleteTopic a h t)"
  unfolding deleteTopic_def by (intro quiet_intros)

lemma quiet_createSubscription [quiet_intros]: "quiet (createSubscription a h p n t)"
  unfolding createSubscription_def by (intro quiet_intros)

lemma quiet_deleteSubscription [quiet_intros]: "quiet (deleteSubscription a h p n t)"
  unfolding deleteSubscription_def by (intro quiet_intros)

lemma quiet_createServiceAccount [quiet_intros]: "quiet (createServiceAccount a h p n)"
  unfolding createServiceAccount_def Let_def by (intro quiet_intros)

lemma quiet_deleteServiceAccount [quiet_intros]: "quiet (deleteServiceAccount a h sa)"
  unfolding deleteServiceAccount_def by (intro quiet_intros)

lemma quiet_createServiceAccountKey [quiet_intros]: "quiet (createServiceAccountKey a h sa)"
  unfolding createServiceAccountKey_def by (intro quiet_intros)

lemma quiet_grantProjectPermission [quiet_intros]: "quiet (grantProjectPermission a h p sa r)"
  unfolding grantProjectPermission_def by (intro quiet_intros)

lemma quiet_grantProjectPermissions [quiet_intros]: "quiet (grantProjectPermissions a h p sa rs)"
  by (induction rs) (auto intro!: quiet_intros)

lemma quiet_grantPermissionOnTopic [quiet_intros]: "quiet (grantPermissionOnTopic a h t sa r)"
  unfolding grantPermissionOnTopic_def by (intro quiet_intros)

lemma quiet_grantPermissionsOnTopic [quiet_intros]: "quiet (grantPermissionsOnTopic a h t sa rs)"
  by (induction rs) (auto intro!: quiet_intros)

lemma quiet_getPermissions [quiet_intros]: "quiet (getPermissions a h p)"
  unfolding getPermissions_def by (intro quiet_intros)

lemma quiet_getPermissionsOnTopic [quiet_intros]: "quiet (getPermissionsOnTopic a h p t)"
  unfolding getPermissionsOnTopic_def by (intro quiet_intros)



section \<open>Statements that do not exit\<close>

lemma noExit_ret [noExit_intros]: "noExit (ret x)"
  by (simp add: noExit_def ret_def)

lemma noExit_andThen [noExit_intros]:
  assumes "noExit m" and "\<And>x. noExit (f x)"
  shows "noExit (andThen m f)"
proof -
  have "fst (andThen m f s) \<noteq> Exit n" for s n
  proof (cases "m s")
    case (Pair r s1)
    from assms(1) Pair have r: "r \<noteq> Exit k" for k
      by (metis noExit_def fst_conv)
    show ?thesis
    proof (cases r)
      case (Val x)
      from assms(2) [of x] have "fst (f x s1) \<noteq> Exit n" by (simp add: noExit_def)
      with Pair Val show ?thesis by (simp add: andThen_def)
    next
      case Panic
      with Pair show ?thesis by (simp add: andThen_def)
    next
      case (Exit k)
      with r [of k] show ?thesis by simp
    qed
  qed
  then show ?thesis by (simp add: noExit_def)
qed

lemma noExit_deref [noExit_intros]: "noExit (deref p)"
  by (cases p) (simp_all add: noExit_def deref_def ret_def)

lemma noExit_lift [noExit_intros]: "noExit (lift r)"
  by (cases r) (simp_all add: noExit_def lift_def ret_def)

lemma noExit_printf [noExit_intros]: "noExit (printf fmt args)"
  by (simp add: noExit_def printf_def)

lemma noExit_println [noExit_intros]: "noExit (println msg)"
  by (simp add: noExit_def println_def)

lemma noExit_deferCall [noExit_intros]: "noExit (deferCall d)"
  by (simp add: noExit_def deferCall_def)

lemma noExit_ifErr [noExit_intros]: "(\<And>e. noExit (f e)) \<Longrightarrow> noExit (ifErr err f)"
  by (cases err) (simp_all add: ifErr_def noExit_ret)

lemma noExit_forEach [noExit_intros]: "(\<And>x. noExit (f x)) \<Longrightarrow> noExit (forEach xs f)"
  by (induction xs) (simp_all add: noExit_ret noExit_andThen)

lemma noExit_inspect [noExit_intros]: "noExit (inspect f)"
  by (simp add: noExit_def inspect_def)

lemma noExit_call [noExit_intros]: "noExit (call ev err x)"
  by (simp add: noExit_def call_def)

lemma noExit_consult [noExit_intros]: "noExit (consult ev err f)"
  by (simp add: noExit_def consult_def)

lemma noExit_system [noExit_intros]: "noExit (system ev err f)"
  by (simp add: noExit_def system_def split: prod.split)

lemma noExit_request [noExit_intros]: "noExit (request ev err f)"
  by (simp add: noExit_def request_def split: prod.split outcome.split)

lemma noExit_case_prod [noExit_intros]: "(\<And>x y. noExit (f x y)) \<Longrightarrow> noExit (case_prod f p)"
  by (cases p) simp

lemma noExit_case_option [noExit_intros]:
  "noExit n \<Longrightarrow> (\<And>x. noExit (f x)) \<Longrightarrow> noExit (case_option n f p)"
  by (cases p) simp_all

lemma noExit_if [noExit_intros]: "noExit m \<Longrightarrow> noExit n \<Longrightarrow> noExit (if c then m else n)"
  by simp

lemma noExit_createTopic [noExit_intros]: "noExit (createTopic a h p n)"
  unfolding createTopic_def by (intro noExit_intros)

lemma noExit_deleteTopic [noExit_intros]: "noExit (deleteTopic a h t)"
  unfolding deleteTopic_def by (intro noExit_intros)

lemma noExit_createSubscription [noExit_intros]: "noExit (createSubscription a h p n t)"
  unfolding createSubscription_def by (intro noExit_intros)

lemma noExit_deleteSubscription [noExit_intros]: "noExit (deleteSubscription a h p n t)"
  unfolding deleteSubscription_def by (intro noExit_intros)

lemma noExit_createServiceAccount [noExit_intros]: "noExit (createServiceAccount a h p n)"
  unfolding createServiceAccount_def Let_def by (intro noExit_intros)

lemma noExit_deleteServiceAccount [noExit_intros]: "noExit (deleteServiceAccount a h sa)"
  unfolding deleteServiceAccount_def by (intro noExit_intros)

lemma noExit_createServiceAccountKey [noExit_intros]: "noExit (createServiceAccountKey a h sa)"
  unfolding createServiceAccountKey_def by (intro noExit_intros)

lemma noExit_grantProjectPermission [noExit_intros]: "noExit (grantProjectPermission a h p sa r)"
  unfolding grantProjectPermission_def by (intro noExit_intros)

lemma noExit_grantProjectPermissions [noExit_intros]: "noExit (grantProjectPermissions a h p sa rs)"
  by (induction rs) (auto intro!: noExit_intros)

lemma noExit_grantPermissionOnTopic [noExit_intros]: "noExit (grantPermissionOnTopic a h t sa r)"
  unfolding grantPermissionOnTopic_def by (intro noExit_intros)

lemma noExit_grantPermissionsOnTopic [noExit_intros]: "noExit (grantPermissionsOnTopic a h t sa rs)"
  by (induction rs) (auto intro!: noExit_intros)

lemma noExit_getPermissions [noExit_intros]: "noExit (getPermissions a h p)"
  unfolding getPermissions_def by (intro noExit_intros)

lemma noExit_getPermissionsOnTopic [noExit_intros]: "noExit (getPermissionsOnTopic a h p t)"
  unfolding getPermissionsOnTopic_def by (intro noExit_intros)

lemma noExit_mainB [noExit_intros]: "noExit (mainB a p)"
  unfolding mainB_def Let_def by (intro noExit_intros)

lemma noExit_mainC [noExit_intros]: "noExit (mainC a p c)"
  unfolding mainC_def Let_def by (intro noExit_intros)

lemma noExit_mainD [noExit_intros]: "noExit (mainD a k ts t sa)"
  unfolding mainD_def Let_def by (intro noExit_intros)

lemma noExit_mainE [noExit_intros]: "noExit (mainE a p ps t k f)"
  unfolding mainE_def Let_def by (intro noExit_intros)

lemma noExit_mainF [noExit_intros]: "noExit (mainF a p ps sa nps t)"
  unfolding mainF_def Let_def by (intro noExit_intros)

lemma noExit_runDeferredCall: "noExit (runDeferredCall a d)"
  unfolding runDeferredCall_def by (cases d) (auto intro!: noExit_intros)

section \<open>Where the deferred calls are registered\<close>

















section \<open>The stack of deferred calls at the end of the body\<close>











section \<open>Where the process exits\<close>



section \<open>Runs on a provider that answers\<close>








































































section \<open>Errors returned and errors logged\<close>

lemma returnedErrors_snoc:
  "returnedErrors (evs @ [Event m h args err]) = returnedErrors evs @ pending err"
  by (cases err) (simp_all add: returnedErrors_def)

lemma loggedErrors_snoc: "loggedErrors (ls @ [l]) = loggedErrors ls @ loggedError l"
  by (simp add: loggedErrors_def)

lemma tellsD:
  "tells p m q \<Longrightarrow> told p s \<Longrightarrow> m s = (r, s') \<Longrightarrow>
     (case r of Val x \<Rightarrow> told (q x) s' | Panic \<Rightarrow> told [] s' | Exit n \<Rightarrow> told [] s')"
  by (auto simp: tells_def split: result.splits)

lemma tells_ret: "tells p (ret x) (\<lambda>_. p)"
  by (simp add: tells_def ret_def)

lemma tells_ret_pair: "tells (pending err) (ret (x, err)) (\<lambda>r. pending (snd r))"
  by (simp add: tells_def ret_def)

lemma tells_ret_err: "tells (pending err) (ret err) (\<lambda>r. pending r)"
  by (simp add: tells_def ret_def)

lemma tells_andThen [tells_intros]:
  assumes "tells p m r" and "\<And>x. tells (r x) (f x) q"
  shows "tells p (andThen m f) q"
proof -
  have "case andThen m f s of (Val x, s') \<Rightarrow> told (q x) s' | (r, s') \<Rightarrow> told [] s'"
    if t: "told p s" for s
  proof -
    obtain r1 s1 where m: "m s = (r1, s1)" by (cases "m s")
    show ?thesis
    proof (cases r1)
      case (Val x)
      with tellsD [OF assms(1) t m] have "told (r x) s1" by simp
      with assms(2) [of x] have "case f x s1 of (Val y, s') \<Rightarrow> told (q y) s' | (r, s') \<Rightarrow> told [] s'"
        by (simp add: tells_def)
      with m Val show ?thesis by (simp add: andThen_def)
    next
      case Panic
      with tellsD [OF assms(1) t m] m show ?thesis by (simp add: andThen_def)
    next
      case (Exit n)
      with tellsD [OF assms(1) t m] m show ?thesis by (simp add: andThen_def)
    qed
  qed
  then show ?thesis by (simp add: tells_def)
qed

lemma tells_call [tells_intros]:
  "tells [] (call (Event m h args) snd x) (\<lambda>r. pending (snd r))"
  by (simp add: tells_def call_def told_def returnedErrors_snoc)

lemma tells_consult [tells_intros]:
  "tells [] (consult (Event m h args) snd f) (\<lambda>r. pending (snd r))"
  by (simp add: tells_def consult_def told_def returnedErrors_snoc)

lemma tells_system_snd [tells_intros]:
  "tells [] (system (Event m h args) snd f) (\<lambda>r. pending (snd r))"
  by (simp add: tells_def system_def told_def returnedErrors_snoc split: prod.split)

lemma tells_system_id [tells_intros]:
  "tells [] (system (Event m h args) id f) (\<lambda>r. pending r)"
  by (simp add: tells_def system_def told_def returnedErrors_snoc split: prod.split)

lemma tells_request_snd [tells_intros]:
  "tells [] (request (Event m h args) snd f) (\<lambda>r. pending (snd r))"
  by (simp add: tells_def request_def told_def returnedErrors_snoc split: prod.split outcome.split)

lemma tells_request_id [tells_intros]:
  "tells [] (request (Event m h args) id f) (\<lambda>r. pending r)"
  by (simp add: tells_def request_def told_def returnedErrors_snoc split: prod.split outcome.split)

lemma tells_ifErr [tells_intros]:
  "tells (pending err) (ifErr err (\<lambda>e. printf fmt [ArgErr e])) (\<lambda>_. [])"
  by (cases err) (simp_all add: tells_def ifErr_def ret_def printf_def told_def loggedErrors_snoc)

lemma tells_deref [tells_intros]: "tells [] (deref p) (\<lambda>_. [])"
  by (cases p) (simp_all add: tells_def deref_def ret_def)

lemma tells_lift [tells_intros]: "tells [] (lift r) (\<lambda>_. [])"
  by (cases r) (simp_all add: tells_def lift_def ret_def)

lemma tells_inspect [tells_intros]: "tells p (inspect f) (\<lambda>_. p)"
  by (simp add: tells_def inspect_def told_def)

lemma tells_deferCall [tells_intros]: "tells p (deferCall d) (\<lambda>_. p)"
  by (simp add: tells_def deferCall_def told_def)

lemma tells_println [tells_intros]: "tells [] (println msg) (\<lambda>_. [])"
  by (simp add: tells_def println_def told_def loggedErrors_snoc)

lemma tells_printf_str [tells_intros]: "tells [] (printf fmt [ArgStr x]) (\<lambda>_. [])"
  by (simp add: tells_def printf_def told_def loggedErrors_snoc)

lemma tells_printf_sub [tells_intros]: "tells [] (printf fmt [ArgSub x]) (\<lambda>_. [])"
  by (simp add: tells_def printf_def told_def loggedErrors_snoc)

lemma tells_forEach [tells_intros]:
  "(\<And>x. tells [] (f x) (\<lambda>_. [])) \<Longrightarrow> tells [] (forEach xs f) (\<lambda>_. [])"
proof (induction xs)
  case Nil
  then show ?case by (simp add: tells_ret)
next
  case (Cons x xs)
  show ?case
    unfolding forEach.simps
    by (rule tells_andThen [OF Cons.prems]) (rule Cons.IH [OF Cons.prems])
qed

lemma tells_case_prod_pending [tells_intros]:
  "(\<And>x y. tells (pending y) (f x y) q) \<Longrightarrow> tells (pending (snd r)) (case_prod f r) q"
  by (cases r) simp


lemma tells_case_option [tells_intros]:
  "tells p n q \<Longrightarrow> (\<And>x. tells p (f x) q) \<Longrightarrow> tells p (case_option n f x) q"
  by (cases x) simp_all

lemma tells_ret_unit [tells_intros]: "tells [] (ret x) (\<lambda>_. [])"
  by (rule tells_ret)

lemma tells_createTopic [tells_intros]:
  "tells [] (createTopic a h p n) (\<lambda>r. pending (snd r))"
  unfolding createTopic_def by (rule tells_intros)+

lemma tells_createSubscription [tells_intros]:
  "tells [] (createSubscription a h p n t) (\<lambda>r. pending (snd r))"
  unfolding createSubscription_def by (rule tells_intros)+

lemma tells_createServiceAccount [tells_intros]:
  "tells [] (createServiceAccount a h p n) (\<lambda>r. pending (snd r))"
  unfolding createServiceAccount_def Let_def by (rule tells_intros)+

lemma tells_createServiceAccountKey [tells_intros]:
  "tells [] (createServiceAccountKey a h sa) (\<lambda>r. pending (snd r))"
  unfolding createServiceAccountKey_def by (rule tells_intros)+

lemma tells_getPermissions [tells_intros]:
  "tells [] (getPermissions a h p) (\<lambda>r. pending (snd r))"
  unfolding getPermissions_def by (rule tells_intros)+

lemma tells_getPermissionsOnTopic [tells_intros]:
  "tells [] (getPermissionsOnTopic a h p t) (\<lambda>r. pending (snd r))"
  unfolding getPermissionsOnTopic_def by (rule tells_intros)+

lemma tells_grantProjectPermission:
  "tells [] (grantProjectPermission a h p sa role) (\<lambda>r. pending (snd r))"
  unfolding grantProjectPermission_def
proof (rule tells_andThen [OF tells_request_snd], rule tells_case_prod_pending)
  fix currPolicy :: "policy option" and err :: "error option"
  show "tells (pending err)
     (case err of
        None \<Rightarrow>
          andThen (lift (addMemberToPolicy currPolicy sa role)) (\<lambda>pol.
            request (Event ''cloudresourcemanager.projects.setIamPolicy'' h [p]) snd
              (ProjectsSetIamPolicy a h p pol))
      | Some e \<Rightarrow> ret (None, Some e))
     (\<lambda>r. pending (snd r))"
  proof (cases err)
    case None
    then show ?thesis by (simp add: tells_andThen [OF tells_lift] tells_request_snd)
  next
    case (Some e)
    with tells_ret_pair [of "Some e" None] show ?thesis by simp
  qed
qed

lemma tells_grantProjectPermissions [tells_intros]:
  "tells [] (grantProjectPermissions a h p sa roles) (\<lambda>r. pending r)"
proof (induction roles)
  case Nil
  from tells_ret_err [of None] show ?case by simp
next
  case (Cons role roles)
  show ?case
    unfolding grantProjectPermissions.simps
  proof (rule tells_andThen [OF tells_grantProjectPermission], rule tells_case_prod_pending)
    fix x :: "policy option" and err :: "error option"
    show "tells (pending err)
       (case err of None \<Rightarrow> grantProjectPermissions a h p sa roles | Some e \<Rightarrow> ret (Some e))
       (\<lambda>r. pending r)"
    proof (cases err)
      case None
      with Cons.IH show ?thesis by simp
    next
      case (Some e)
      with tells_ret_err [of "Some e"] show ?thesis by simp
    qed
  qed
qed

lemma tells_grantPermissionOnTopic:
  "tells [] (grantPermissionOnTopic a h t sa role) (\<lambda>r. pending (snd r))"
  unfolding grantPermissionOnTopic_def
proof (rule tells_andThen [OF tells_deref], rule tells_andThen [OF tells_request_snd],
    rule tells_case_prod_pending)
  fix tp :: topic and currPolicy :: "policy option" and err :: "error option"
  show "tells (pending err)
     (case err of
        None \<Rightarrow>
          andThen (lift (addMemberToPubSubPolicy currPolicy sa (pubsubRolePrefix @ role))) (\<lambda>pol.
            request (Event ''pubsub.projects.topics.setIamPolicy'' h [Name tp]) snd
              (TopicsSetIamPolicy a h (Name tp) pol))
      | Some e \<Rightarrow> ret (None, Some e))
     (\<lambda>r. pending (snd r))"
  proof (cases err)
    case None
    then show ?thesis by (simp add: tells_andThen [OF tells_lift] tells_request_snd)
  next
    case (Some e)
    with tells_ret_pair [of "Some e" None] show ?thesis by simp
  qed
qed

lemma tells_grantPermissionsOnTopic [tells_intros]:
  "tells [] (grantPermissionsOnTopic a h t sa roles) (\<lambda>r. pending r)"
proof (induction roles)
  case Nil
  from tells_ret_err [of None] show ?case by simp
next
  case (Cons role roles)
  show ?case
    unfolding grantPermissionsOnTopic.simps
  proof (rule tells_andThen [OF tells_grantPermissionOnTopic], rule tells_case_prod_pending)
    fix x :: "policy option" and err :: "error option"
    show "tells (pending err)
       (case err of None \<Rightarrow> grantPermissionsOnTopic a h t sa roles | Some e \<Rightarrow> ret (Some e))
       (\<lambda>r. pending r)"
    proof (cases err)
      case None
      with Cons.IH show ?thesis by simp
    next
      case (Some e)
      with tells_ret_err [of "Some e"] show ?thesis by simp
    qed
  qed
qed












section \<open>The credential file\<close>



section \<open>The run against the mocked provider\<close>

text \<open>
  C1: against the mocked provider, at the first \<open>createSubscription\<close> the service
  account holds the subscriber role on the topic only; the call, made through the
  service built from the new key, fails with the authorization error, nothing is logged
  as a success and no subscription exists. After \<open>grantProjectPermissions\<close> the
  project's policy binds the service account to \<open>roles/pubsub.subscriber\<close>, and the
  second call, through the same service, returns the subscription \<open>test-sub2\<close>, which
  exists and is logged.
\<close>

theorem first_subscription_refused_second_created:
  "(case mainFirst mockApi (start mockWorld) of (r, s) \<Rightarrow>
      r = Val (''p1'', Some ownerEmail,
               Some \<lparr>Name = ''projects/p1/serviceAccounts/'' @ testSaEmail, Email = testSaEmail\<rparr>,
               Some testSaEmail, Some \<lparr>Name = ''projects/p1/topics/test-topic''\<rparr>)
      \<and> map_of (topicPolicies (world s)) ''projects/p1/topics/test-topic''
          = Some \<lparr>Bindings = [\<lparr>Members = [''serviceAccount:'' @ testSaEmail],
                                Role = ''roles/pubsub.subscriber''\<rparr>]\<rparr>
      \<and> projectPolicy (world s) = projectPolicy mockWorld
      \<and> servicesOf ''pubsub.projects.subscriptions.create'' (events s) = [Some testSaEmail]
      \<and> last (logged s) = Printf ''Failed to create subscription with only a topic role: %s''
                             [ArgErr forbidden]
      \<and> Println ''SUCCESS using topic role!'' \<notin> set (logged s)
      \<and> subscriptions (world s) = [])
   \<and> (case mainBody mockApi (start mockWorld) of (r, s) \<Rightarrow>
      r = Val ()
      \<and> projectPolicy (world s)
          = \<lparr>Bindings = [\<lparr>Members = [''serviceAccount:'' @ ownerEmail], Role = ''roles/owner''\<rparr>,
                          \<lparr>Members = [''serviceAccount:'' @ testSaEmail],
                           Role = ''roles/pubsub.subscriber''\<rparr>]\<rparr>
      \<and> servicesOf ''pubsub.projects.subscriptions.create'' (events s)
          = [Some testSaEmail, Some testSaEmail]
      \<and> subscriptions (world s)
          = [\<lparr>Name = ''projects/p1/subscriptions/test-sub2'',
              Topic = ''projects/p1/topics/test-topic''\<rparr>]
      \<and> drop 3 (logged s)
          = [Println ''SUCCESS using global role!'',
             Printf ''%+v'' [ArgSub \<lparr>Name = ''projects/p1/subscriptions/test-sub2'',
                                    Topic = ''projects/p1/topics/test-topic''\<rparr>]])"
  by code_simp

text \<open>
  C5 fails on the code: in the same run the permission check on the topic goes through
  the service of the first, full-access client (line 348 builds \<open>newTopicsService\<close>
  from \<open>pubsubService\<close>), while both subscription calls go through the service built
  from the new key.
\<close>

theorem topic_permission_check_goes_through_first_service:
  "servicesOf ''pubsub.projects.topics.testIamPermissions''
      (events (snd (main mockApi mockWorld))) = [Some ownerEmail]
   \<and> servicesOf ''pubsub.projects.subscriptions.create''
      (events (snd (main mockApi mockWorld))) = [Some testSaEmail, Some testSaEmail]"
  by code_simp

section \<open>Deferred deletion of a resource that was never created\<close>

text \<open>
  C4 fails on the code: \<open>deleteTopic\<close> and \<open>deleteServiceAccount\<close> dereference the
  pointer they are given, so on \<open>nil\<close> they panic before any call is made, whatever the
  provider. In the run where the topic cannot be created the process ends with the
  panic status 2, the deferred \<open>deleteTopic\<close> having been started on \<open>nil\<close>, and
  nothing but the creation error is logged.
\<close>

theorem deferred_deletion_of_absent_resource_panics:
  "deleteTopic a topicsService None s = (Panic, s)
   \<and> deleteServiceAccount a iamServiceAccountsService None s = (Panic, s)
   \<and> fst (runDeferred a [DeferDeleteTopic topicsService None] s) = True
   \<and> fst (main mockApi (mockWorld\<lparr>topicsDown := True\<rparr>)) = 2
   \<and> unwound (snd (main mockApi (mockWorld\<lparr>topicsDown := True\<rparr>)))
      = [DeferDeleteTopic (Some ownerEmail) None,
         DeferDeleteServiceAccount (Some ownerEmail)
           (Some \<lparr>Name = ''projects/p1/serviceAccounts/'' @ testSaEmail, Email = testSaEmail\<rparr>)]
   \<and> logged (snd (main mockApi (mockWorld\<lparr>topicsDown := True\<rparr>)))
      = [Printf ''Failed to create topic: %s'' [ArgErr unavailable]]"
proof -
  have 1: "deleteTopic a topicsService None s = (Panic, s)"
    by (simp add: deleteTopic_def andThen_def deref_def)
  have 2: "deleteServiceAccount a iamServiceAccountsService None s = (Panic, s)"
    by (simp add: deleteServiceAccount_def andThen_def deref_def)
  have 3: "fst (runDeferred a [DeferDeleteTopic topicsService None] s) = True"
    by (simp add: runDeferredCall_def deleteTopic_def andThen_def deref_def)
  have 4: "fst (main mockApi (mockWorld\<lparr>topicsDown := True\<rparr>)) = 2"
    by code_simp
  have 5: "unwound (snd (main mockApi (mockWorld\<lparr>topicsDown := True\<rparr>)))
      = [DeferDeleteTopic (Some ownerEmail) None,
         DeferDeleteServiceAccount (Some ownerEmail)
           (Some \<lparr>Name = ''projects/p1/serviceAccounts/'' @ testSaEmail, Email = testSaEmail\<rparr>)]"
    by code_simp
  have 6: "logged (snd (main mockApi (mockWorld\<lparr>topicsDown := True\<rparr>)))
      = [Printf ''Failed to create topic: %s'' [ArgErr unavailable]]"
    by code_simp
  from 1 2 3 4 5 6 show ?thesis by blast
qed

section \<open>The exit status\<close>




section \<open>The order of teardown\<close>




end
